theory Spec2Isabelle
  imports Main "HOL-Library.Word"
begin

section \<open>Go values shared by the packages\<close>

text \<open>
  Go strings are byte sequences: \<^typ>\<open>string\<close> (a list of 8-bit characters).
  \<open>time.Duration\<close> is an \<open>int64\<close> count of nanoseconds: a 64-bit word, read
  signed with \<^const>\<open>sint\<close>, whose arithmetic wraps around as Go's does.
\<close>

type_synonym Duration = "64 word"

definition Nanosecond :: Duration where "Nanosecond = 1"
definition Second :: Duration where "Second = 1000000000"
definition Minute :: Duration where "Minute = 60 * Second"
definition Hour :: Duration where "Hour = 60 * Minute"

text \<open>
  \<open>*time.Location\<close>: the two locations the \<open>time\<close> package owns, and a zone
  loaded from the time zone database under its name.
\<close>

datatype location = UTC | Local | Zone string

fun location_String :: "location \<Rightarrow> string" where
  "location_String UTC = ''UTC''"
| "location_String Local = ''Local''"
| "location_String (Zone n) = n"

text \<open>
  \<open>time.Time\<close>: an instant, counted in nanoseconds from the zero time
  (January 1, year 1, 00:00:00 UTC), and the location it is shown in. The instant is
  an unbounded integer: the saturation of \<open>Time\<close>'s 64-bit seconds field, some
  292 billion years away from the zero time, is outside the model.
\<close>

record time =
  instant :: int
  zone :: location

definition zero_time :: time where
  "zero_time = \<lparr>instant = 0, zone = UTC\<rparr>"

definition time_IsZero :: "time \<Rightarrow> bool" where
  "time_IsZero t = (instant t = 0)"

definition time_Add :: "time \<Rightarrow> Duration \<Rightarrow> time" where
  "time_Add t d = t\<lparr>instant := instant t + sint d\<rparr>"

definition time_In :: "time \<Rightarrow> location \<Rightarrow> time" where
  "time_In t l = t\<lparr>zone := l\<rparr>"

definition time_Before :: "time \<Rightarrow> time \<Rightarrow> bool" where
  "time_Before t u = (instant t < instant u)"

subsection \<open>Errors\<close>

text \<open>The sentinel errors the packages declare with \<open>errors.New\<close>.\<close>

datatype sentinel =
    ErrEventCreationFailed | ErrInvalidEventTime | ErrCalendarNotFound
  | ErrPermissionDenied | ErrQuotaExceeded
  | ErrInvalidDateFormat | ErrInvalidTimezone
  | ErrInvalidCredentials | ErrAuthenticationFailed | ErrTokenRefreshFailed

fun sentinel_text :: "sentinel \<Rightarrow> string" where
  "sentinel_text ErrEventCreationFailed = ''failed to create event''"
| "sentinel_text ErrInvalidEventTime = ''invalid event time''"
| "sentinel_text ErrCalendarNotFound = ''calendar not found''"
| "sentinel_text ErrPermissionDenied = ''permission denied''"
| "sentinel_text ErrQuotaExceeded = ''API quota exceeded''"
| "sentinel_text ErrInvalidDateFormat = ''invalid date/time format''"
| "sentinel_text ErrInvalidTimezone = ''invalid timezone''"
| "sentinel_text ErrInvalidCredentials = ''invalid credentials file format''"
| "sentinel_text ErrAuthenticationFailed = ''authentication failed''"
| "sentinel_text ErrTokenRefreshFailed = ''token refresh failed''"

text \<open>
  An error value the code returns: \<open>Wrapped k s\<close> is built by
  \<open>fmt.Errorf("%w: ...", k, ...)\<close>, so that \<open>errors.Is(err, k)\<close> holds and
  \<open>err.Error()\<close> is \<open>s\<close>; \<open>Plain s\<close> wraps no sentinel (\<open>errors.New\<close>,
  \<open>fmt.Errorf\<close> without a sentinel, or an error of a library) and has the text \<open>s\<close>;
  \<open>Panic s\<close> is no error value but a run-time panic that ends the call.
\<close>

datatype go_error = Wrapped sentinel string | Plain string | Panic string

fun error_text :: "go_error \<Rightarrow> string" where
  "error_text (Wrapped k s) = s"
| "error_text (Plain s) = s"
| "error_text (Panic s) = s"

fun errors_Is :: "go_error \<Rightarrow> sentinel \<Rightarrow> bool" where
  "errors_Is (Wrapped k s) k' = (k = k')"
| "errors_Is (Plain s) k' = False"
| "errors_Is (Panic s) k' = False"

definition errorf_w :: "sentinel \<Rightarrow> string \<Rightarrow> go_error" where
  \<comment> \<open>\<open>fmt.Errorf("%w: <rest>", k)\<close>\<close>
  "errorf_w k rest = Wrapped k (sentinel_text k @ '': '' @ rest)"

subsection \<open>Decimal numbers in messages (the verb \<open>%d\<close>)\<close>

definition digit_char :: "nat \<Rightarrow> char" where
  "digit_char d =
     (if d = 0 then CHR ''0'' else if d = 1 then CHR ''1'' else if d = 2 then CHR ''2''
      else if d = 3 then CHR ''3'' else if d = 4 then CHR ''4'' else if d = 5 then CHR ''5''
      else if d = 6 then CHR ''6'' else if d = 7 then CHR ''7'' else if d = 8 then CHR ''8''
      else CHR ''9'')"

function show_nat :: "nat \<Rightarrow> string" where
  "show_nat n = (if n < 10 then [digit_char n] else show_nat (n div 10) @ [digit_char (n mod 10)])"
  by pat_completeness auto
termination
  by (relation "measure id") auto

declare show_nat.simps [simp del]

definition show_int :: "int \<Rightarrow> string" where
  "show_int i = (if i < 0 then CHR ''-'' # show_nat (nat (- i)) else show_nat (nat i))"

section \<open>Package calendar: the client (internal/calendar/client.go)\<close>

record EventParams =
  Title :: string
  StartTime :: time
  Duration :: Duration
  Description :: string
  Location :: string

record EventResult =
  res_ID :: string
  res_Title :: string
  res_StartTime :: time
  res_EndTime :: time
  res_Description :: string
  res_Location :: string
  res_Link :: string

text \<open>The wire format of the provider's library, \<open>calendar.Event\<close>, as far as the client fills or reads it.\<close>

record EventDateTime =
  DateTime :: string
  Date :: string
  TimeZone :: string

record calendar_Event =
  Id :: string
  Summary :: string
  ev_Description :: string
  ev_Location :: string
  Start :: EventDateTime
  End :: EventDateTime
  HtmlLink :: string

text \<open>
  An error of the provider's call. \<open>errors.As(err, &apiErr)\<close> finds a
  \<open>*googleapi.Error\<close> (status code, message, reason-tagged sub-errors) in
  \<open>Structured\<close> errors and finds none in \<open>Transport\<close> errors, of which only the
  text \<open>err.Error()\<close> is known.
\<close>

record ErrorItem =
  Reason :: string
  item_Message :: string

record googleapi_Error =
  Code :: int
  Message :: string
  Errors :: "ErrorItem list"

datatype provider_error = Structured googleapi_Error | Transport string

record Client =
  calendarID :: string

text \<open>
  What the client needs from outside: the layouts of the \<open>time\<close> package
  (\<open>Format\<close> with \<open>time.RFC3339\<close>, \<open>Parse\<close> with \<open>time.RFC3339\<close> and with
  \<open>"2006-01-02"\<close>), and the provider answering
  \<open>service.Events.Insert(calendarID, event).Context(ctx).Do()\<close>.
\<close>

record client_env =
  Format_RFC3339 :: "time \<Rightarrow> string"
  Parse_RFC3339 :: "string \<Rightarrow> string + time"
  Parse_date :: "string \<Rightarrow> string + time"
  Events_Insert :: "string \<Rightarrow> calendar_Event \<Rightarrow> provider_error + calendar_Event"

definition validateEventParams :: "EventParams \<Rightarrow> go_error option" where
  "validateEventParams params =
     (if Title params = [] then Some (errorf_w ErrInvalidEventTime ''title is required'')
      else if time_IsZero (StartTime params) then Some (errorf_w ErrInvalidEventTime ''start time is required'')
      else if sint (Duration params) \<le> 0 then Some (errorf_w ErrInvalidEventTime ''duration must be positive'')
      else None)"

definition parseEventResult :: "client_env \<Rightarrow> calendar_Event \<Rightarrow> go_error + EventResult" where
  "parseEventResult E event =
     (case (case Parse_RFC3339 E (DateTime (Start event)) of
              Inr t \<Rightarrow> Inr t
            | Inl _ \<Rightarrow> Parse_date E (Date (Start event))) of
        Inl err \<Rightarrow> Inl (Plain (''failed to parse start time: '' @ err))
      | Inr startTime \<Rightarrow>
          (case (case Parse_RFC3339 E (DateTime (End event)) of
                   Inr t \<Rightarrow> Inr t
                 | Inl _ \<Rightarrow> Parse_date E (Date (End event))) of
             Inl err \<Rightarrow> Inl (Plain (''failed to parse end time: '' @ err))
           | Inr endTime \<Rightarrow>
               Inr \<lparr>res_ID = Id event, res_Title = Summary event,
                    res_StartTime = startTime, res_EndTime = endTime,
                    res_Description = ev_Description event, res_Location = ev_Location event,
                    res_Link = HtmlLink event\<rparr>))"

fun containsQuotaError_loop :: "ErrorItem list \<Rightarrow> bool" where
  "containsQuotaError_loop [] = False"
| "containsQuotaError_loop (e # es) =
     (if Reason e = ''quotaExceeded'' \<or> Reason e = ''rateLimitExceeded''
         \<or> Reason e = ''userRateLimitExceeded''
      then True else containsQuotaError_loop es)"

definition containsQuotaError :: "googleapi_Error \<Rightarrow> bool" where
  "containsQuotaError apiErr = containsQuotaError_loop (Errors apiErr)"

definition wrapAPIError :: "provider_error \<Rightarrow> go_error" where
  "wrapAPIError err =
     (case err of
        Structured apiErr \<Rightarrow>
          (if Code apiErr = 400 then
             errorf_w ErrEventCreationFailed (''invalid request - '' @ Message apiErr)
           else if Code apiErr = 401 then
             errorf_w ErrPermissionDenied ''authentication expired, please re-authenticate''
           else if Code apiErr = 403 then
             (if containsQuotaError apiErr
              then errorf_w ErrQuotaExceeded ''please try again later''
              else errorf_w ErrPermissionDenied
                     ''you don't have permission to access this calendar'')
           else if Code apiErr = 404 then
             errorf_w ErrCalendarNotFound ''check that the calendar ID is correct''
           else if Code apiErr = 429 then
             errorf_w ErrQuotaExceeded ''too many requests, please try again later''
           else
             errorf_w ErrEventCreationFailed
               (Message apiErr @ '' (code: '' @ show_int (Code apiErr) @ '')''))
      | Transport msg \<Rightarrow> errorf_w ErrEventCreationFailed msg)"

text \<open>
  \<open>build_event\<close> is the event \<open>CreateEvent\<close> assembles before the call (its
  lines 74 to 88). \<open>CreateEvent\<close> returns its result together with the network calls
  it issued, in order: each is the calendar id and the event handed to
  \<open>Events.Insert\<close>.
\<close>

definition build_event :: "client_env \<Rightarrow> EventParams \<Rightarrow> calendar_Event" where
  "build_event E params =
     (let endTime = time_Add (StartTime params) (Duration params) in
      \<lparr>Id = [], Summary = Title params, ev_Description = Description params,
       ev_Location = Location params,
       Start = \<lparr>DateTime = Format_RFC3339 E (StartTime params), Date = [],
                TimeZone = location_String (zone (StartTime params))\<rparr>,
       End = \<lparr>DateTime = Format_RFC3339 E endTime, Date = [],
              TimeZone = location_String (zone endTime)\<rparr>,
       HtmlLink = []\<rparr>)"

definition CreateEvent ::
  "client_env \<Rightarrow> Client \<Rightarrow> EventParams \<Rightarrow> (go_error + EventResult) \<times> (string \<times> calendar_Event) list" where
  "CreateEvent E c params =
     (case validateEventParams params of
        Some err \<Rightarrow> (Inl err, [])
      | None \<Rightarrow>
          (let event = build_event E params in
           (case Events_Insert E (calendarID c) event of
              Inl err \<Rightarrow> (Inl (wrapAPIError err), [(calendarID c, event)])
            | Inr createdEvent \<Rightarrow>
                (parseEventResult E createdEvent, [(calendarID c, event)]))))"


section \<open>Strings and numbers of the standard library\<close>

text \<open>
  The functions of \<open>strings\<close>, \<open>strconv\<close> and \<open>time\<close> the parsers call,
  written after the library's sources. \<open>int\<close> has 64 bits.
\<close>

definition is_digit :: "char \<Rightarrow> bool" where
  "is_digit c = (48 \<le> (of_char c :: nat) \<and> (of_char c :: nat) \<le> 57)"

definition digit_val :: "char \<Rightarrow> nat" where
  "digit_val c = of_char c - 48"

definition HasPrefix :: "string \<Rightarrow> string \<Rightarrow> bool" where
  "HasPrefix s p = (take (length p) s = p)"

text \<open>
  \<open>strings.HasPrefix\<close>, and \<open>strings.TrimSpace\<close>: it removes the leading and
  the trailing code points for which \<open>unicode.IsSpace\<close> holds. \<open>space_runes\<close>
  lists their UTF-8 encodings; a string starts (ends) with such a code point exactly
  when it starts (ends) with its encoding.
\<close>

definition space_runes :: "string list" where
  "space_runes =
     [[CHR 0x09], [CHR 0x0A], [CHR 0x0B], [CHR 0x0C], [CHR 0x0D], [CHR 0x20],
      [CHR 0xC2, CHR 0x85], [CHR 0xC2, CHR 0xA0], [CHR 0xE1, CHR 0x9A, CHR 0x80],
      [CHR 0xE2, CHR 0x80, CHR 0x80], [CHR 0xE2, CHR 0x80, CHR 0x81],
      [CHR 0xE2, CHR 0x80, CHR 0x82], [CHR 0xE2, CHR 0x80, CHR 0x83],
      [CHR 0xE2, CHR 0x80, CHR 0x84], [CHR 0xE2, CHR 0x80, CHR 0x85],
      [CHR 0xE2, CHR 0x80, CHR 0x86], [CHR 0xE2, CHR 0x80, CHR 0x87],
      [CHR 0xE2, CHR 0x80, CHR 0x88], [CHR 0xE2, CHR 0x80, CHR 0x89],
      [CHR 0xE2, CHR 0x80, CHR 0x8A], [CHR 0xE2, CHR 0x80, CHR 0xA8],
      [CHR 0xE2, CHR 0x80, CHR 0xA9], [CHR 0xE2, CHR 0x80, CHR 0xAF],
      [CHR 0xE2, CHR 0x81, CHR 0x9F], [CHR 0xE3, CHR 0x80, CHR 0x80]]"

function strip_runes :: "string list \<Rightarrow> string \<Rightarrow> string" where
  "strip_runes ps s =
     (case find (\<lambda>p. p \<noteq> [] \<and> HasPrefix s p) ps of
        None \<Rightarrow> s
      | Some p \<Rightarrow> strip_runes ps (drop (length p) s))"
  by pat_completeness auto
termination
proof (relation "measure (\<lambda>(ps, s). length s)")
  show "wf (measure (\<lambda>(ps, s). length s))" by simp
next
  fix ps :: "string list" and s p :: string
  assume "find (\<lambda>p. p \<noteq> [] \<and> HasPrefix s p) ps = Some p"
  then have "p \<noteq> []" and "take (length p) s = p"
    by (auto simp: find_Some_iff HasPrefix_def)
  then have "s \<noteq> []" by auto
  with \<open>p \<noteq> []\<close> show "((ps, drop (length p) s), (ps, s)) \<in> measure (\<lambda>(ps, s). length s)"
    by simp
qed

declare strip_runes.simps [simp del]

definition TrimSpace :: "string \<Rightarrow> string" where
  "TrimSpace s = rev (strip_runes (map rev space_runes) (rev (strip_runes space_runes s)))"


text \<open>
  A printable ASCII character other than the space: no white-space code point starts
  or ends with it.
\<close>

definition plain_char :: "char \<Rightarrow> bool" where
  "plain_char c = (33 \<le> (of_char c :: nat) \<and> (of_char c :: nat) < 128)"

text \<open>
  \<open>strings.ToLower\<close> maps the bytes of an ASCII-only string; any other string goes
  through \<open>strings.Map(unicode.ToLower, s)\<close>, which is a parameter here.
\<close>

definition ascii_lower :: "char \<Rightarrow> char" where
  "ascii_lower c =
     (case map_of (zip ''ABCDEFGHIJKLMNOPQRSTUVWXYZ'' ''abcdefghijklmnopqrstuvwxyz'') c of
        Some l \<Rightarrow> l
      | None \<Rightarrow> c)"

definition ToLower :: "(string \<Rightarrow> string) \<Rightarrow> string \<Rightarrow> string" where
  "ToLower unicode_lower s =
     (if list_all (\<lambda>c. (of_char c :: nat) < 128) s then map ascii_lower s else unicode_lower s)"

text \<open>
  \<open>strconv.Atoi\<close>: an optional sign and decimal digits, within the range of
  \<open>int64\<close>; \<open>None\<close> stands for any error.
\<close>

definition dec_value :: "string \<Rightarrow> nat" where
  "dec_value ds = foldl (\<lambda>n c. n * 10 + digit_val c) 0 ds"

definition Atoi :: "string \<Rightarrow> int option" where
  "Atoi s =
     (let neg = (s \<noteq> [] \<and> hd s = CHR ''-'');
          ds = (if s \<noteq> [] \<and> (hd s = CHR ''-'' \<or> hd s = CHR ''+'') then tl s else s)
      in if ds = [] \<or> \<not> list_all is_digit ds then None
         else if neg then (if dec_value ds \<le> 2 ^ 63 then Some (- int (dec_value ds)) else None)
         else (if dec_value ds < 2 ^ 63 then Some (int (dec_value ds)) else None))"

text \<open>
  \<open>time.ParseDuration\<close> with its helpers \<open>leadingInt\<close> and
  \<open>leadingFraction\<close>, on \<open>uint64\<close> values whose overflow checks are the
  library's. \<open>duration_component\<close> is one round of its loop: a number, an optional
  fraction and a unit. The fraction's share is computed in floating point,
  \<open>uint64(float64(f) * (float64(unit) / scale))\<close>, and is the parameter \<open>frac\<close>.
\<close>

fun leadingInt :: "nat \<Rightarrow> string \<Rightarrow> (nat \<times> string) option" where
  "leadingInt x [] = Some (x, [])"
| "leadingInt x (c # cs) =
     (if \<not> is_digit c then Some (x, c # cs)
      else if x > 2 ^ 63 div 10 then None
      else if x * 10 + digit_val c > 2 ^ 63 then None
      else leadingInt (x * 10 + digit_val c) cs)"

fun leadingFraction :: "nat \<Rightarrow> nat \<Rightarrow> bool \<Rightarrow> string \<Rightarrow> nat \<times> nat \<times> string" where
  "leadingFraction x scale overflow [] = (x, scale, [])"
| "leadingFraction x scale overflow (c # cs) =
     (if \<not> is_digit c then (x, scale, c # cs)
      else if overflow then leadingFraction x scale overflow cs
      else if x > (2 ^ 63 - 1) div 10 then leadingFraction x scale True cs
      else if x * 10 + digit_val c > 2 ^ 63 then leadingFraction x scale True cs
      else leadingFraction (x * 10 + digit_val c) (scale * 10) False cs)"

definition unitMap :: "string \<Rightarrow> nat option" where
  "unitMap u =
     (if u = ''ns'' then Some 1
      else if u = ''us'' then Some 1000
      else if u = [CHR 0xC2, CHR 0xB5, CHR ''s''] then Some 1000
      else if u = [CHR 0xCE, CHR 0xBC, CHR ''s''] then Some 1000
      else if u = ''ms'' then Some 1000000
      else if u = ''s'' then Some 1000000000
      else if u = ''m'' then Some 60000000000
      else if u = ''h'' then Some 3600000000000
      else None)"

definition unit_char :: "char \<Rightarrow> bool" where
  "unit_char c = (\<not> (c = CHR ''.'' \<or> is_digit c))"

definition duration_fraction :: "string \<Rightarrow> nat \<times> nat \<times> string \<times> bool" where
  "duration_fraction s =
     (case s of
        [] \<Rightarrow> (0, 1, s, False)
      | c # r \<Rightarrow>
          if c = CHR ''.'' then
            (case leadingFraction 0 1 False r of
               (f, scale, s') \<Rightarrow> (f, scale, s', length r \<noteq> length s'))
          else (0, 1, s, False))"

definition duration_component ::
  "(nat \<Rightarrow> nat \<Rightarrow> nat \<Rightarrow> nat) \<Rightarrow> string \<Rightarrow> (nat \<times> string) option" where
  "duration_component frac s =
     (if s = [] \<or> \<not> (hd s = CHR ''.'' \<or> is_digit (hd s)) then None
      else (case leadingInt 0 s of
        None \<Rightarrow> None
      | Some (v, s1) \<Rightarrow>
          (case duration_fraction s1 of
             (f, scale, s2, post) \<Rightarrow>
               if length s = length s1 \<and> \<not> post then None
               else if takeWhile unit_char s2 = [] then None
               else (case unitMap (takeWhile unit_char s2) of
                 None \<Rightarrow> None
               | Some unit \<Rightarrow>
                   (if v > 2 ^ 63 div unit then None
                    else if f > 0 then
                      (if (v * unit + frac f unit scale) mod 2 ^ 64 > 2 ^ 63 then None
                       else Some ((v * unit + frac f unit scale) mod 2 ^ 64, dropWhile unit_char s2))
                    else Some (v * unit, dropWhile unit_char s2))))))"

lemma leadingInt_length: "leadingInt x s = Some (v, r) \<Longrightarrow> length r \<le> length s"
  by (induction x s rule: leadingInt.induct) (auto split: if_splits)

lemma leadingFraction_length: "leadingFraction x sc ov s = (f, sc', r) \<Longrightarrow> length r \<le> length s"
  by (induction x sc ov s rule: leadingFraction.induct) (auto split: if_splits)

lemma duration_fraction_length: "duration_fraction s = (f, sc, r, post) \<Longrightarrow> length r \<le> length s"
  by (auto simp: duration_fraction_def split: list.splits if_splits prod.splits
           dest: leadingFraction_length)

lemma dropWhile_shorter: "takeWhile P xs \<noteq> [] \<Longrightarrow> length (dropWhile P xs) < length xs"
  by (cases xs) (auto simp: le_imp_less_Suc length_dropWhile_le split: if_splits)

lemma duration_component_shorter:
  assumes "duration_component frac s = Some (v, rest)"
  shows "length rest < length s"
proof -
  from assms obtain v0 s1 f sc s2 post where
    li: "leadingInt 0 s = Some (v0, s1)" and
    df: "duration_fraction s1 = (f, sc, s2, post)" and
    u: "takeWhile unit_char s2 \<noteq> []" and
    r: "rest = dropWhile unit_char s2"
    by (auto simp: duration_component_def split: if_splits option.splits prod.splits)
  from u have "length rest < length s2" unfolding r by (rule dropWhile_shorter)
  moreover from df have "length s2 \<le> length s1" by (rule duration_fraction_length)
  moreover from li have "length s1 \<le> length s" by (rule leadingInt_length)
  ultimately show ?thesis by simp
qed

function ParseDuration_loop :: "(nat \<Rightarrow> nat \<Rightarrow> nat \<Rightarrow> nat) \<Rightarrow> nat \<Rightarrow> string \<Rightarrow> nat option" where
  "ParseDuration_loop frac d s =
     (if s = [] then Some d
      else (case duration_component frac s of
        None \<Rightarrow> None
      | Some (v, rest) \<Rightarrow>
          (if (d + v) mod 2 ^ 64 > 2 ^ 63 then None
           else ParseDuration_loop frac ((d + v) mod 2 ^ 64) rest)))"
  by pat_completeness auto
termination
  by (relation "measure (\<lambda>(frac, d, s). length s)") (auto dest: duration_component_shorter)

declare ParseDuration_loop.simps [simp del]

definition time_ParseDuration :: "(nat \<Rightarrow> nat \<Rightarrow> nat \<Rightarrow> nat) \<Rightarrow> string \<Rightarrow> Duration option" where
  "time_ParseDuration frac orig =
     (let neg = (orig \<noteq> [] \<and> hd orig = CHR ''-'');
          s = (if orig \<noteq> [] \<and> (hd orig = CHR ''-'' \<or> hd orig = CHR ''+'') then tl orig else orig)
      in if s = ''0'' then Some 0
         else if s = [] then None
         else (case ParseDuration_loop frac 0 s of
           None \<Rightarrow> None
         | Some d \<Rightarrow>
             (if neg then Some (- word_of_nat d)
              else if d > 2 ^ 63 - 1 then None
              else Some (word_of_nat d))))"

section \<open>Package calendar: dates, times and durations\<close>

text \<open>
  What the parsers read from outside: the time zone database behind
  \<open>time.LoadLocation\<close>, the process environment (\<open>os.Getenv\<close> returns the empty
  string for a variable that is not set), the two readings of \<open>time.Now()\<close> (in
  \<open>parseRelative\<close> and, later, in \<open>parseTimeOnly\<close>), the calendar arithmetic of
  the \<open>time\<close> package (\<open>time.Date\<close>, \<open>Time.Date\<close>, \<open>Time.Clock\<close>), the
  flexible parser \<open>dateparse.ParseIn\<close>, \<open>time.ParseInLocation\<close> (layout first), and
  the non-ASCII branch of \<open>strings.ToLower\<close>.
\<close>

record parse_env =
  LoadLocation :: "string \<Rightarrow> location option"
  environ :: "string \<Rightarrow> string option"
  Now_parseRelative :: time
  Now_parseTimeOnly :: time
  time_Date :: "int \<Rightarrow> int \<Rightarrow> int \<Rightarrow> int \<Rightarrow> int \<Rightarrow> int \<Rightarrow> int \<Rightarrow> location \<Rightarrow> time"
  Time_Date :: "time \<Rightarrow> int \<times> int \<times> int"
  Time_Clock :: "time \<Rightarrow> int \<times> int \<times> int"
  dateparse_ParseIn :: "string \<Rightarrow> location \<Rightarrow> time option"
  ParseInLocation :: "string \<Rightarrow> string \<Rightarrow> location \<Rightarrow> time option"
  unicode_ToLower :: "string \<Rightarrow> string"

definition os_Getenv :: "parse_env \<Rightarrow> string \<Rightarrow> string" where
  "os_Getenv E key = (case environ E key of None \<Rightarrow> [] | Some v \<Rightarrow> v)"

definition time_AddDate :: "parse_env \<Rightarrow> time \<Rightarrow> int \<Rightarrow> int \<Rightarrow> int \<Rightarrow> time" where
  "time_AddDate E t years months days =
     (case Time_Date E t of
        (year, month, day) \<Rightarrow>
          (case Time_Clock E t of
             (hour, minute, sec) \<Rightarrow>
               time_Date E (year + years) (month + months) (day + days) hour minute sec
                 (instant t mod 1000000000) (zone t)))"

definition getLocation :: "parse_env \<Rightarrow> string \<Rightarrow> go_error + location" where
  "getLocation E timezone =
     (if timezone \<noteq> [] then
        (case LoadLocation E timezone of
           None \<Rightarrow> Inl (errorf_w ErrInvalidTimezone timezone)
         | Some loc \<Rightarrow> Inr loc)
      else if os_Getenv E ''TZ'' \<noteq> [] then
        (case LoadLocation E (os_Getenv E ''TZ'') of
           None \<Rightarrow>
             Inl (errorf_w ErrInvalidTimezone
                    (os_Getenv E ''TZ'' @ '' (from TZ environment variable)''))
         | Some loc \<Rightarrow> Inr loc)
      else Inr Local)"

text \<open>
  The three regular expressions. Their character classes are \<open>\s\<close> (tab, newline,
  form feed, carriage return, space) and \<open>\d\<close> (the ASCII digits). Each expression is
  anchored at both ends, and a digit, a space and a letter never stand for one
  another, so a string matches in one way at most: the matchers read the pieces from
  left to right and return the capture groups.
\<close>

definition re_space :: "char \<Rightarrow> bool" where
  "re_space c = (c \<in> set [CHR 0x09, CHR 0x0A, CHR 0x0C, CHR 0x0D, CHR 0x20])"

definition match_inDuration :: "string \<Rightarrow> (string \<times> string) option" where
  \<comment> \<open>\<open>^in\s+(\d+)\s*(hours?|minutes?|mins?|hrs?)$\<close>\<close>
  "match_inDuration s =
     (if \<not> HasPrefix s ''in'' then None
      else if takeWhile re_space (drop 2 s) = [] then None
      else if takeWhile is_digit (dropWhile re_space (drop 2 s)) = [] then None
      else if dropWhile re_space (dropWhile is_digit (dropWhile re_space (drop 2 s)))
              \<in> set [''hour'', ''hours'', ''minute'', ''minutes'', ''min'', ''mins'', ''hr'', ''hrs'']
      then Some (takeWhile is_digit (dropWhile re_space (drop 2 s)),
                 dropWhile re_space (dropWhile is_digit (dropWhile re_space (drop 2 s))))
      else None)"

definition match_clock_tail :: "string \<Rightarrow> (string \<times> string) option" where
  \<comment> \<open>\<open>(\d{2})(?::(\d{2}))?$\<close>\<close>
  "match_clock_tail s =
     (if length s = 2 \<and> list_all is_digit s then Some (s, [])
      else if length s = 5 \<and> list_all is_digit (take 2 s) \<and> s ! 2 = CHR '':''
              \<and> list_all is_digit (drop 3 s)
      then Some (take 2 s, drop 3 s)
      else None)"

definition match_clock :: "string \<Rightarrow> (string \<times> string \<times> string) option" where
  \<comment> \<open>\<open>(\d{1,2}):(\d{2})(?::(\d{2}))?$\<close>\<close>
  "match_clock s =
     (if takeWhile is_digit s = [] \<or> length (takeWhile is_digit s) > 2 then None
      else (case dropWhile is_digit s of
              [] \<Rightarrow> None
            | c # r \<Rightarrow>
                if c \<noteq> CHR '':'' then None
                else (case match_clock_tail r of
                        None \<Rightarrow> None
                      | Some (m, sec) \<Rightarrow> Some (takeWhile is_digit s, m, sec))))"

definition match_timeOnly :: "string \<Rightarrow> (string \<times> string \<times> string) option" where
  \<comment> \<open>\<open>^(\d{1,2}):(\d{2})(?::(\d{2}))?$\<close>\<close>
  "match_timeOnly s = match_clock s"

definition match_dayTime :: "string \<Rightarrow> (string \<times> string \<times> string) option" where
  \<comment> \<open>\<open>^(?:today|tomorrow)\s*(?:at\s+)?(\d{1,2}):(\d{2})(?::(\d{2}))?$\<close>\<close>
  "match_dayTime s =
     (if \<not> (HasPrefix s ''today'' \<or> HasPrefix s ''tomorrow'') then None
      else
        (let r = dropWhile re_space (drop (if HasPrefix s ''today'' then 5 else 8) s) in
         if HasPrefix r ''at'' \<and> takeWhile re_space (drop 2 r) \<noteq> []
         then match_clock (dropWhile re_space (drop 2 r))
         else match_clock r))"

definition parseInDuration :: "string \<Rightarrow> time \<Rightarrow> time option" where
  "parseInDuration input now =
     (case match_inDuration input of
        None \<Rightarrow> None
      | Some (digits, unit) \<Rightarrow>
          (case Atoi digits of
             None \<Rightarrow> None
           | Some amount \<Rightarrow>
               if HasPrefix unit ''hour'' \<or> HasPrefix unit ''hr''
               then Some (time_Add now (word_of_int amount * Hour))
               else if HasPrefix unit ''min''
               then Some (time_Add now (word_of_int amount * Minute))
               else None))"

text \<open>
  \<open>clock_fields\<close> is the conversion and range check of the hour, minute and second
  groups, which \<open>parseDayWithTime\<close> (lines 155 to 171) and \<open>parseTimeOnly\<close> (lines
  188 to 204) both carry out, in the same words.
\<close>

definition clock_fields :: "string \<times> string \<times> string \<Rightarrow> (int \<times> int \<times> int) option" where
  "clock_fields matches =
     (case matches of
        (m1, m2, m3) \<Rightarrow>
          (case Atoi m1 of
             None \<Rightarrow> None
           | Some hour \<Rightarrow>
               if hour < 0 \<or> hour > 23 then None
               else (case Atoi m2 of
                       None \<Rightarrow> None
                     | Some minute \<Rightarrow>
                         if minute < 0 \<or> minute > 59 then None
                         else if m3 \<noteq> [] then
                           (case Atoi m3 of
                              None \<Rightarrow> None
                            | Some second \<Rightarrow>
                                if second < 0 \<or> second > 59 then None
                                else Some (hour, minute, second))
                         else Some (hour, minute, 0))))"

definition parseDayWithTime ::
  "parse_env \<Rightarrow> string \<Rightarrow> time \<Rightarrow> int \<Rightarrow> location \<Rightarrow> time option" where
  "parseDayWithTime E input now daysOffset loc =
     (case match_dayTime input of
        None \<Rightarrow> None
      | Some matches \<Rightarrow>
          (case clock_fields matches of
             None \<Rightarrow> None
           | Some (hour, minute, second) \<Rightarrow>
               (case Time_Date E (time_AddDate E now 0 0 daysOffset) of
                  (year, month, day) \<Rightarrow>
                    Some (time_Date E year month day hour minute second 0 loc))))"

definition parseRelative :: "parse_env \<Rightarrow> string \<Rightarrow> location \<Rightarrow> time option" where
  "parseRelative E input0 loc =
     (let input = ToLower (unicode_ToLower E) input0;
          now = time_In (Now_parseRelative E) loc
      in case (if HasPrefix input ''in '' then parseInDuration input now else None) of
           Some t \<Rightarrow> Some t
         | None \<Rightarrow>
             (case (if HasPrefix input ''today''
                    then parseDayWithTime E input now 0 loc else None) of
                Some t \<Rightarrow> Some t
              | None \<Rightarrow>
                  (if HasPrefix input ''tomorrow''
                   then parseDayWithTime E input now 1 loc else None)))"

definition parseTimeOnly :: "parse_env \<Rightarrow> string \<Rightarrow> location \<Rightarrow> time option" where
  "parseTimeOnly E input loc =
     (case match_timeOnly input of
        None \<Rightarrow> None
      | Some matches \<Rightarrow>
          (case clock_fields matches of
             None \<Rightarrow> None
           | Some (hour, minute, second) \<Rightarrow>
               (case Time_Date E (time_In (Now_parseTimeOnly E) loc) of
                  (year, month, day) \<Rightarrow>
                    Some (time_Date E year month day hour minute second 0 loc))))"

definition formats :: "string list" where
  "formats =
     [''2006-01-02T15:04:05'', ''2006-01-02T15:04'', ''2006-01-02 15:04:05'',
      ''2006-01-02 15:04'', ''2006/01/02 15:04:05'', ''2006/01/02 15:04'',
      ''01/02/2006 15:04:05'', ''01/02/2006 15:04'', ''02/01/2006 15:04:05'',
      ''02/01/2006 15:04'', ''Jan 2, 2006 15:04:05'', ''Jan 2, 2006 15:04'',
      ''January 2, 2006 15:04:05'', ''January 2, 2006 15:04'', ''2006-01-02'']"

fun try_formats :: "parse_env \<Rightarrow> string list \<Rightarrow> string \<Rightarrow> location \<Rightarrow> time option" where
  "try_formats E [] input loc = None"
| "try_formats E (format # rest) input loc =
     (case ParseInLocation E format input loc of
        Some t \<Rightarrow> Some t
      | None \<Rightarrow> try_formats E rest input loc)"

definition could_not_parse :: "string \<Rightarrow> string" where
  "could_not_parse input =
     ''could not parse '' @ [CHR 0x27] @ input @ [CHR 0x27]
       @ ''. Try formats like '2024-01-15 14:00', '14:00', 'tomorrow 14:00', or 'in 2 hours''
       @ [CHR 0x27]"

definition parseStandard :: "parse_env \<Rightarrow> string \<Rightarrow> location \<Rightarrow> go_error + time" where
  "parseStandard E input loc =
     (case dateparse_ParseIn E input loc of
        Some t \<Rightarrow> Inr t
      | None \<Rightarrow>
          (case try_formats E formats input loc of
             Some t \<Rightarrow> Inr t
           | None \<Rightarrow> Inl (errorf_w ErrInvalidDateFormat (could_not_parse input))))"

definition ParseTime :: "parse_env \<Rightarrow> string \<Rightarrow> string \<Rightarrow> go_error + time" where
  "ParseTime E input0 timezone =
     (let input = TrimSpace input0 in
      if input = [] then Inl (errorf_w ErrInvalidDateFormat ''empty input'')
      else (case getLocation E timezone of
              Inl err \<Rightarrow> Inl err
            | Inr loc \<Rightarrow>
                (case parseRelative E input loc of
                   Some t \<Rightarrow> Inr t
                 | None \<Rightarrow>
                     (case parseTimeOnly E input loc of
                        Some t \<Rightarrow> Inr t
                      | None \<Rightarrow> parseStandard E input loc))))"


definition ParseDuration :: "(nat \<Rightarrow> nat \<Rightarrow> nat \<Rightarrow> nat) \<Rightarrow> string \<Rightarrow> go_error + Duration" where
  "ParseDuration frac input0 =
     (let input = TrimSpace input0 in
      if input = [] then Inl (Plain ''empty duration'')
      else (case Atoi input of
        Some minutes \<Rightarrow> Inr (word_of_int minutes * Minute)
      | None \<Rightarrow>
          (case time_ParseDuration frac input of
             Some d \<Rightarrow> Inr d
           | None \<Rightarrow>
               Inl (Plain (''invalid duration '' @ [CHR 0x27] @ input @ [CHR 0x27]
                  @ '': use formats like '30m', '1h', '1h30m', or just '30' for minutes'')))))"

subsection \<open>The resolution order of the specification\<close>

text \<open>
  The four stages of the resolution order as the specification names them, each with
  the guard \<open>parseRelative\<close> puts before it, and the rule that the first stage with
  a result decides.
\<close>

definition stage_relative_duration :: "parse_env \<Rightarrow> string \<Rightarrow> location \<Rightarrow> time option" where
  "stage_relative_duration E input loc =
     (if HasPrefix (ToLower (unicode_ToLower E) input) ''in ''
      then parseInDuration (ToLower (unicode_ToLower E) input) (time_In (Now_parseRelative E) loc)
      else None)"

definition stage_relative_day :: "parse_env \<Rightarrow> string \<Rightarrow> location \<Rightarrow> time option" where
  "stage_relative_day E input loc =
     (if HasPrefix (ToLower (unicode_ToLower E) input) ''today''
      then parseDayWithTime E (ToLower (unicode_ToLower E) input)
             (time_In (Now_parseRelative E) loc) 0 loc
      else if HasPrefix (ToLower (unicode_ToLower E) input) ''tomorrow''
      then parseDayWithTime E (ToLower (unicode_ToLower E) input)
             (time_In (Now_parseRelative E) loc) 1 loc
      else None)"

definition stage_time_only :: "parse_env \<Rightarrow> string \<Rightarrow> location \<Rightarrow> time option" where
  "stage_time_only E input loc = parseTimeOnly E input loc"

definition stage_general :: "parse_env \<Rightarrow> string \<Rightarrow> location \<Rightarrow> go_error + time" where
  "stage_general E input loc =
     (case dateparse_ParseIn E input loc of
        Some t \<Rightarrow> Inr t
      | None \<Rightarrow>
          (case List.find (\<lambda>format. ParseInLocation E format input loc \<noteq> None) formats of
             Some format \<Rightarrow> Inr (the (ParseInLocation E format input loc))
           | None \<Rightarrow> Inl (errorf_w ErrInvalidDateFormat (could_not_parse input))))"

fun first_match :: "time option list \<Rightarrow> go_error + time \<Rightarrow> go_error + time" where
  "first_match [] general = general"
| "first_match (Some t # later) general = Inr t"
| "first_match (None # later) general = first_match later general"

section \<open>Package auth: tokens and the authorization flow\<close>

subsection \<open>The token of the library \<open>golang.org/x/oauth2\<close>\<close>

text \<open>
  \<open>oauth2.Token\<close> and its method \<open>Valid\<close>, after the library (file
  \<open>token.go\<close>): a token is valid when it has an access token and is not expired; a
  token whose \<open>Expiry\<close> is the zero time never expires, and any other token counts
  as expired from ten seconds (\<open>expiryDelta\<close>) before its expiry. \<open>now\<close> is the
  reading of the clock in \<open>Valid\<close>.
\<close>

record Token =
  AccessToken :: string
  TokenType :: string
  RefreshToken :: string
  Expiry :: time

definition expiryDelta :: Duration where
  "expiryDelta = 10 * Second"

definition Token_expired :: "time \<Rightarrow> Token \<Rightarrow> bool" where
  "Token_expired now t =
     (if time_IsZero (Expiry t) then False
      else time_Before (time_Add (Expiry t) (- expiryDelta)) now)"

definition Token_Valid :: "time \<Rightarrow> Token \<Rightarrow> bool" where
  "Token_Valid now t = (AccessToken t \<noteq> [] \<and> \<not> Token_expired now t)"

text \<open>
  \<open>oauth2.Config\<close>, and the authorization URL of \<open>Config.AuthCodeURL\<close> as its
  endpoint and its query parameters (the library sorts and escapes them when it
  prints the URL). \<open>AccessTypeOffline\<close> is the option that adds
  \<open>access_type=offline\<close>.
\<close>

record oauth2_Config =
  ClientID :: string
  ClientSecret :: string
  AuthURL :: string
  TokenURL :: string
  RedirectURL :: string
  Scopes :: "string list"

record auth_url =
  url_base :: string
  url_query :: "(string \<times> string) list"

definition AccessTypeOffline :: "string \<times> string" where
  "AccessTypeOffline = (''access_type'', ''offline'')"

fun strings_Join :: "string list \<Rightarrow> string \<Rightarrow> string" where
  "strings_Join [] sep = []"
| "strings_Join [x] sep = x"
| "strings_Join (x # y # rest) sep = x @ sep @ strings_Join (y # rest) sep"

definition AuthCodeURL :: "oauth2_Config \<Rightarrow> string \<Rightarrow> (string \<times> string) list \<Rightarrow> auth_url" where
  "AuthCodeURL c state opts =
     \<lparr>url_base = AuthURL c,
      url_query =
        [(''response_type'', ''code''), (''client_id'', ClientID c)]
        @ (if RedirectURL c \<noteq> [] then [(''redirect_uri'', RedirectURL c)] else [])
        @ (if Scopes c \<noteq> [] then [(''scope'', strings_Join (Scopes c) '' '')] else [])
        @ (if state \<noteq> [] then [(''state'', state)] else [])
        @ opts\<rparr>"

subsection \<open>The callback listener\<close>

text \<open>
  A request, as far as the handler reads it: the parameters of \<open>r.URL.Query()\<close> in
  the order of the URL. \<open>Query_Get\<close> is \<open>url.Values.Get\<close>: the first value of the
  key, or the empty string when the key has none.
\<close>

record request =
  query :: "(string \<times> string) list"

definition Query_Get :: "(string \<times> string) list \<Rightarrow> string \<Rightarrow> string" where
  "Query_Get q key = (case map_of q key of None \<Rightarrow> [] | Some v \<Rightarrow> v)"

text \<open>
  The two channels, each with a buffer of one value: a channel is the list of the
  values it holds, and a send on a full channel blocks (\<open>None\<close>).
\<close>

record channels =
  codeChan :: "string list"
  errChan :: "go_error list"

definition empty_channels :: channels where
  "empty_channels = \<lparr>codeChan = [], errChan = []\<rparr>"

definition chan_send :: "'a list \<Rightarrow> 'a \<Rightarrow> 'a list option" where
  "chan_send buffer v = (if length buffer < 1 then Some (buffer @ [v]) else None)"

text \<open>
  What the handler writes to its \<open>http.ResponseWriter\<close>. \<open>http.Error\<close> sets the
  two headers, the status and the message with a newline; a first \<open>Write\<close> with no
  status set sends the status 200.
\<close>

record response =
  resp_status :: nat
  resp_headers :: "(string \<times> string) list"
  resp_body :: string

definition http_Error :: "string \<Rightarrow> nat \<Rightarrow> response" where
  "http_Error msg code =
     \<lparr>resp_status = code,
      resp_headers = [(''Content-Type'', ''text/plain; charset=utf-8''),
                      (''X-Content-Type-Options'', ''nosniff'')],
      resp_body = msg @ [CHR 0x0A]\<rparr>"

definition success_page :: string where
  "success_page =
     [CHR 0x0A] @ ''<!DOCTYPE html>'' @ [CHR 0x0A] @ ''<html>'' @ [CHR 0x0A]
     @ ''<head><title>Authorization Successful</title></head>'' @ [CHR 0x0A]
     @ ''<body style='' @ [CHR 0x22]
     @ ''font-family: sans-serif; text-align: center; padding: 50px;'' @ [CHR 0x22]
     @ ''>'' @ [CHR 0x0A]
     @ ''<h1>Authorization Successful!</h1>'' @ [CHR 0x0A]
     @ ''<p>You can close this window and return to the terminal.</p>'' @ [CHR 0x0A]
     @ ''</body>'' @ [CHR 0x0A] @ ''</html>'' @ [CHR 0x0A]"

datatype handler_result = Responded channels response | Blocked

text \<open>The handler that \<open>startCallbackServer\<close> registers for every path (lines 175 to 199).\<close>

definition callback_handler :: "channels \<Rightarrow> request \<Rightarrow> handler_result" where
  "callback_handler ch r =
     (if Query_Get (query r) ''code'' = [] then
        (case chan_send (errChan ch)
                (Plain (if Query_Get (query r) ''error'' = []
                        then ''no authorization code received''
                        else Query_Get (query r) ''error'')) of
           None \<Rightarrow> Blocked
         | Some buffer \<Rightarrow>
             Responded (ch\<lparr>errChan := buffer\<rparr>) (http_Error ''Authorization failed'' 400))
      else
        (case chan_send (codeChan ch) (Query_Get (query r) ''code'') of
           None \<Rightarrow> Blocked
         | Some buffer \<Rightarrow>
             Responded (ch\<lparr>codeChan := buffer\<rparr>)
               \<lparr>resp_status = 200, resp_headers = [(''Content-Type'', ''text/html'')],
                resp_body = success_page\<rparr>))"

text \<open>
  The server runs the handler on each request in a goroutine of its own: a handler
  that blocks leaves the channels as they are.
\<close>

fun serve_requests :: "channels \<Rightarrow> request list \<Rightarrow> channels" where
  "serve_requests ch [] = ch"
| "serve_requests ch (r # rs) =
     (case callback_handler ch r of
        Responded ch' resp \<Rightarrow> serve_requests ch' rs
      | Blocked \<Rightarrow> serve_requests ch rs)"

subsection \<open>The authenticator\<close>

record Authenticator =
  credentialsPath :: string
  tokenPath :: string
  config :: "oauth2_Config option"

datatype "context" = Ctx_Active | Ctx_Canceled | Ctx_DeadlineExceeded

fun ctx_Err :: "context \<Rightarrow> go_error" where
  "ctx_Err Ctx_Active = Plain []"
| "ctx_Err Ctx_Canceled = Plain ''context canceled''"
| "ctx_Err Ctx_DeadlineExceeded = Plain ''context deadline exceeded''"

datatype select_case = CodeReceived string | ErrReceived go_error | CtxDone | TimedOut

text \<open>
  What the authenticator does to the outside, in order: file reads and writes, the
  refresh of a token through \<open>tokenSource.Token()\<close>, the listener, the browser, the
  exchange of the code, and what it prints.
\<close>

datatype effect =
    Ef_ReadFile string | Ef_WriteFile string string
  | Ef_Refresh | Ef_Exchange string
  | Ef_Listen | Ef_Close
  | Ef_ShowURL auth_url | Ef_OpenBrowser auth_url
  | Ef_Print string | Ef_Warn string

text \<open>
  What the authenticator reads from outside: the file system, the JSON codecs
  (\<open>google.ConfigFromJSON\<close> with the scopes, \<open>json.Unmarshal\<close> and
  \<open>json.MarshalIndent\<close> of a token), the clock, the token endpoint
  (\<open>tokenSource.Token()\<close> for a token that is not valid, \<open>config.Exchange\<close>), the
  port the listener is given, the browser, the requests that reach the listener
  while the flow waits, and the choice the Go runtime makes between the cases of the
  \<open>select\<close> statement that are ready.
\<close>

record auth_env =
  ReadFile :: "string \<Rightarrow> string + string"
  WriteFile :: "string \<Rightarrow> string \<Rightarrow> string option"
  ConfigFromJSON :: "string \<Rightarrow> string + oauth2_Config"
  json_Unmarshal :: "string \<Rightarrow> string + Token"
  json_MarshalIndent :: "Token \<Rightarrow> string"
  timeNow :: time
  TokenSource_Token :: "context \<Rightarrow> oauth2_Config \<Rightarrow> Token \<Rightarrow> string + Token"
  Exchange :: "context \<Rightarrow> oauth2_Config \<Rightarrow> string \<Rightarrow> string + Token"
  net_Listen :: "string + int"
  openBrowser :: "auth_url \<Rightarrow> string option"
  requests :: "request list"
  select_choice :: "select_case list \<Rightarrow> select_case"

definition LoadCredentials :: "auth_env \<Rightarrow> Authenticator \<Rightarrow> go_error option \<times> Authenticator" where
  "LoadCredentials E a =
     (case ReadFile E (credentialsPath a) of
        Inl err \<Rightarrow> (Some (Plain (''failed to read credentials file: '' @ err)), a)
      | Inr data \<Rightarrow>
          (case ConfigFromJSON E data of
             Inl err \<Rightarrow> (Some (errorf_w ErrInvalidCredentials err), a)
           | Inr cfg \<Rightarrow> (None, a\<lparr>config := Some cfg\<rparr>)))"

definition loadToken :: "auth_env \<Rightarrow> Authenticator \<Rightarrow> go_error + Token" where
  "loadToken E a =
     (case ReadFile E (tokenPath a) of
        Inl err \<Rightarrow> Inl (Plain err)
      | Inr data \<Rightarrow>
          (case json_Unmarshal E data of
             Inl err \<Rightarrow> Inl (Plain (''failed to parse token file: '' @ err))
           | Inr token \<Rightarrow> Inr token))"

definition saveToken :: "auth_env \<Rightarrow> Authenticator \<Rightarrow> Token \<Rightarrow> go_error option" where
  "saveToken E a token =
     (case WriteFile E (tokenPath a) (json_MarshalIndent E token) of
        Some err \<Rightarrow> Some (Plain (''failed to write token file: '' @ err))
      | None \<Rightarrow> None)"

text \<open>
  The \<open>select\<close> statement of \<open>authenticate\<close> (lines 138 to 147): a case is ready
  when its channel holds a value or the context is done; the runtime picks one of
  the ready cases, and with none ready the timer of five minutes fires.
\<close>

definition select_ready :: "context \<Rightarrow> channels \<Rightarrow> select_case list" where
  "select_ready ctx ch =
     map CodeReceived (codeChan ch) @ map ErrReceived (errChan ch)
     @ (if ctx = Ctx_Active then [] else [CtxDone])"

definition select_wait :: "auth_env \<Rightarrow> context \<Rightarrow> channels \<Rightarrow> select_case" where
  "select_wait E ctx ch =
     (if select_ready ctx ch = [] then TimedOut
      else if select_choice E (select_ready ctx ch) \<in> set (select_ready ctx ch)
      then select_choice E (select_ready ctx ch)
      else hd (select_ready ctx ch))"

text \<open>
  \<open>authenticate\<close> returns its result, the authenticator (whose redirect URL it sets)
  and its effects. \<open>flow_url\<close> is the authorization URL it builds (lines 122 to 125).
\<close>

definition flow_url :: "oauth2_Config \<Rightarrow> int \<Rightarrow> auth_url" where
  "flow_url cfg port =
     AuthCodeURL (cfg\<lparr>RedirectURL := ''http://localhost:'' @ show_int port\<rparr>)
       ''state-token'' [AccessTypeOffline]"

definition flow_opening :: "auth_env \<Rightarrow> auth_url \<Rightarrow> effect list" where
  "flow_opening E authURL =
     [Ef_Listen, Ef_Print ''Opening browser for authentication...'', Ef_ShowURL authURL,
      Ef_OpenBrowser authURL]
     @ (case openBrowser E authURL of
          Some err \<Rightarrow> [Ef_Warn (''Warning: failed to open browser: '' @ err)]
        | None \<Rightarrow> [])
     @ [Ef_Print ''Waiting for authorization...'']"

definition authenticate ::
  "auth_env \<Rightarrow> Authenticator \<Rightarrow> context \<Rightarrow> (go_error + Token) \<times> Authenticator \<times> effect list" where
  "authenticate E a ctx =
     (case net_Listen E of
        Inl err \<Rightarrow> (Inl (Plain (''failed to start callback server: '' @ err)), a, [Ef_Listen])
      | Inr port \<Rightarrow>
          (case config a of
             None \<Rightarrow> (Inl (Panic ''nil pointer dereference''), a, [Ef_Listen, Ef_Close])
           | Some cfg0 \<Rightarrow>
               (let cfg = cfg0\<lparr>RedirectURL := ''http://localhost:'' @ show_int port\<rparr>;
                    a' = a\<lparr>config := Some cfg\<rparr>;
                    opening = flow_opening E (flow_url cfg0 port)
                in case select_wait E ctx (serve_requests empty_channels (requests E)) of
                     ErrReceived err \<Rightarrow>
                       (Inl (errorf_w ErrAuthenticationFailed (error_text err)), a',
                        opening @ [Ef_Close])
                   | CtxDone \<Rightarrow> (Inl (ctx_Err ctx), a', opening @ [Ef_Close])
                   | TimedOut \<Rightarrow>
                       (Inl (errorf_w ErrAuthenticationFailed ''timeout waiting for authorization''),
                        a', opening @ [Ef_Close])
                   | CodeReceived code \<Rightarrow>
                       (case Exchange E ctx cfg code of
                          Inl err \<Rightarrow>
                            (Inl (errorf_w ErrAuthenticationFailed err), a',
                             opening @ [Ef_Exchange code, Ef_Close])
                        | Inr token \<Rightarrow>
                            (Inr token, a',
                             opening @ [Ef_Exchange code,
                                        Ef_WriteFile (tokenPath a) (json_MarshalIndent E token)]
                             @ (case saveToken E a token of
                                  Some err \<Rightarrow>
                                    [Ef_Warn (''Warning: failed to save token: '' @ error_text err)]
                                | None \<Rightarrow> [])
                             @ [Ef_Print ''Authentication successful!'', Ef_Close])))))"

text \<open>
  \<open>GetToken\<close>. \<open>ensure_config\<close> is its first step (lines 65 to 69): the credentials
  are loaded when the configuration is still missing.
\<close>

definition ensure_config :: "auth_env \<Rightarrow> Authenticator \<Rightarrow> (go_error + Authenticator) \<times> effect list" where
  "ensure_config E a =
     (if config a = None then
        (case LoadCredentials E a of
           (Some err, a') \<Rightarrow> (Inl err, [Ef_ReadFile (credentialsPath a)])
         | (None, a') \<Rightarrow> (Inr a', [Ef_ReadFile (credentialsPath a)]))
      else (Inr a, []))"

definition GetToken ::
  "auth_env \<Rightarrow> Authenticator \<Rightarrow> context \<Rightarrow> (go_error + Token) \<times> Authenticator \<times> effect list" where
  "GetToken E a ctx =
     (case ensure_config E a of
        (Inl err, reads) \<Rightarrow> (Inl err, a, reads)
      | (Inr a1, reads) \<Rightarrow>
          (case loadToken E a1 of
             Inr token \<Rightarrow>
               if Token_Valid (timeNow E) token
               then (Inr token, a1, reads @ [Ef_ReadFile (tokenPath a1)])
               else
                 (case config a1 of
                    None \<Rightarrow>
                      (Inl (Panic ''nil pointer dereference''), a1,
                       reads @ [Ef_ReadFile (tokenPath a1)])
                  | Some cfg \<Rightarrow>
                      (case TokenSource_Token E ctx cfg token of
                         Inr newToken \<Rightarrow>
                           (Inr newToken, a1,
                            reads @ [Ef_ReadFile (tokenPath a1), Ef_Refresh,
                                     Ef_WriteFile (tokenPath a1) (json_MarshalIndent E newToken)]
                            @ (case saveToken E a1 newToken of
                                 Some err \<Rightarrow>
                                   [Ef_Warn (''Warning: failed to save refreshed token: ''
                                             @ error_text err)]
                               | None \<Rightarrow> []))
                       | Inl err \<Rightarrow>
                           (case authenticate E a1 ctx of
                              (result, a2, effects) \<Rightarrow>
                                (result, a2,
                                 reads @ [Ef_ReadFile (tokenPath a1), Ef_Refresh,
                                          Ef_Print ''Token refresh failed. Re-authentication required.'']
                                 @ effects))))
           | Inl err \<Rightarrow>
               (case authenticate E a1 ctx of
                  (result, a2, effects) \<Rightarrow>
                    (result, a2, reads @ [Ef_ReadFile (tokenPath a1)] @ effects))))"

text \<open>The state values of the authorization URLs a run opens in the browser.\<close>

definition flow_states :: "effect list \<Rightarrow> string list" where
  "flow_states effects =
     concat (map (\<lambda>e. case e of
                        Ef_OpenBrowser u \<Rightarrow> map snd (filter (\<lambda>p. fst p = ''state'') (url_query u))
                      | _ \<Rightarrow> []) effects)"

section \<open>Sample inputs\<close>

text \<open>A small environment to run the client on: a provider that echoes the event back.\<close>

definition echo_env :: client_env where
  "echo_env =
     \<lparr>Format_RFC3339 = (\<lambda>t. show_int (instant t)),
      Parse_RFC3339 = (\<lambda>s. if s = [] then Inl ''cannot parse'' else Inr \<lparr>instant = int (length s), zone = UTC\<rparr>),
      Parse_date = (\<lambda>s. Inl ''cannot parse''),
      Events_Insert = (\<lambda>cid ev. Inr ev)\<rparr>"

definition meeting :: EventParams where
  "meeting =
     \<lparr>Title = ''Team Meeting'', StartTime = \<lparr>instant = 7200, zone = UTC\<rparr>,
      Duration = 3600, Description = [], Location = []\<rparr>"


definition exact_frac :: "nat \<Rightarrow> nat \<Rightarrow> nat \<Rightarrow> nat" where
  "exact_frac f unit scale = f * unit div scale"

text \<open>
  An environment to run the parsers on: a time zone database of three names, no
  \<open>TZ\<close> variable, a toy calendar of twelve months of 31 days (the clock reads
  09:30:00 on day 15 of month 1 of 2024), and library parsers that know one input each.
  \<open>tz_empty_env\<close> is the same with \<open>TZ\<close> set to the empty string.
\<close>

definition sample_env :: parse_env where
  "sample_env =
     \<lparr>LoadLocation = (\<lambda>name. if name = [] \<or> name = ''UTC'' then Some UTC
                         else if name = ''Local'' then Some Local
                         else if name = ''America/Chicago'' then Some (Zone name)
                         else None),
      environ = (\<lambda>key. None),
      Now_parseRelative = \<lparr>instant = 65056987800000000000, zone = Local\<rparr>,
      Now_parseTimeOnly = \<lparr>instant = 65056987801000000000, zone = Local\<rparr>,
      time_Date = (\<lambda>y mo d h mi s ns l.
         \<lparr>instant = ((((((y * 12 + mo) * 31 + d) * 24 + h) * 60 + mi) * 60 + s) * 1000000000 + ns),
          zone = l\<rparr>),
      Time_Date = (\<lambda>t. (instant t div 86400000000000 div 372,
                        instant t div 86400000000000 mod 372 div 31,
                        instant t div 86400000000000 mod 31)),
      Time_Clock = (\<lambda>t. (instant t div 1000000000 mod 86400 div 3600,
                         instant t div 1000000000 mod 3600 div 60,
                         instant t div 1000000000 mod 60)),
      dateparse_ParseIn = (\<lambda>s l. if s = ''2024-01-15 14:00'' then Some \<lparr>instant = 5000, zone = l\<rparr> else None),
      ParseInLocation = (\<lambda>f s l. if f = ''2006-01-02'' \<and> s = ''2024-01-16''
                          then Some \<lparr>instant = 6000, zone = l\<rparr> else None),
      unicode_ToLower = (\<lambda>s. s)\<rparr>"

definition tz_empty_env :: parse_env where
  "tz_empty_env = sample_env\<lparr>environ := (\<lambda>key. if key = ''TZ'' then Some [] else None)\<rparr>"

definition tz_chicago_env :: parse_env where
  "tz_chicago_env =
     sample_env\<lparr>environ := (\<lambda>key. if key = ''TZ'' then Some ''America/Chicago'' else None)\<rparr>"

text \<open>
  An authenticator and its surroundings: a credentials file, token files that hold a
  token valid for two more hours, a token with no expiry and a token that expires in
  five seconds, a token endpoint that answers while the context is active, and one
  callback request with a code.
\<close>

definition sample_config :: oauth2_Config where
  "sample_config =
     \<lparr>ClientID = ''test-client-id.apps.googleusercontent.com'', ClientSecret = ''test-client-secret'',
      AuthURL = ''https://accounts.google.com/o/oauth2/auth'',
      TokenURL = ''https://oauth2.googleapis.com/token'',
      RedirectURL = ''http://localhost'',
      Scopes = [''https://www.googleapis.com/auth/calendar.events'']\<rparr>"

definition clock_now :: time where
  "clock_now = \<lparr>instant = 63840000000000000000, zone = UTC\<rparr>"

definition cached_token :: Token where
  "cached_token =
     \<lparr>AccessToken = ''cached-access-token'', TokenType = ''Bearer'',
      RefreshToken = ''cached-refresh-token'',
      Expiry = \<lparr>instant = 63840007200000000000, zone = UTC\<rparr>\<rparr>"

definition zero_expiry_token :: Token where
  "zero_expiry_token = cached_token\<lparr>Expiry := zero_time\<rparr>"

definition soon_token :: Token where
  "soon_token = cached_token\<lparr>Expiry := \<lparr>instant = 63840000005000000000, zone = UTC\<rparr>\<rparr>"

definition fresh_token :: Token where
  "fresh_token = cached_token\<lparr>AccessToken := ''fresh-access-token''\<rparr>"

definition auth_sample_env :: auth_env where
  "auth_sample_env =
     \<lparr>ReadFile = (\<lambda>path. if path = ''credentials.json'' then Inr ''credentials''
                      else if path = ''token.json'' then Inr ''cached''
                      else if path = ''zero.json'' then Inr ''zero''
                      else if path = ''soon.json'' then Inr ''soon''
                      else Inl ''no such file or directory''),
      WriteFile = (\<lambda>path data. None),
      ConfigFromJSON = (\<lambda>data. if data = ''credentials'' then Inr sample_config
                              else Inl ''unexpected end of JSON input''),
      json_Unmarshal = (\<lambda>data. if data = ''cached'' then Inr cached_token
                              else if data = ''zero'' then Inr zero_expiry_token
                              else if data = ''soon'' then Inr soon_token
                              else Inl ''unexpected end of JSON input''),
      json_MarshalIndent = (\<lambda>token. AccessToken token),
      timeNow = clock_now,
      TokenSource_Token = (\<lambda>ctx cfg token. if ctx = Ctx_Active \<and> RefreshToken token \<noteq> []
                              then Inr fresh_token else Inl ''cannot fetch token''),
      Exchange = (\<lambda>ctx cfg code. if ctx = Ctx_Active then Inr fresh_token
                              else Inl ''context canceled''),
      net_Listen = Inr 49152,
      openBrowser = (\<lambda>u. None),
      requests = [\<lparr>query = [(''state'', ''state-token''), (''code'', ''4/0AbCd'')]\<rparr>],
      select_choice = hd\<rparr>"

definition sample_auth :: Authenticator where
  "sample_auth = \<lparr>credentialsPath = ''credentials.json'', tokenPath = ''token.json'', config = None\<rparr>"

definition quota_error :: googleapi_Error where
  "quota_error = \<lparr>Code = 403, Message = ''Quota exceeded'',
     Errors = [\<lparr>Reason = ''quotaExceeded'', item_Message = []\<rparr>]\<rparr>"

section \<open>Properties\<close>

lemma show_nat_small: "n < 10 \<Longrightarrow> show_nat n = [digit_char n]"
  by (simp add: show_nat.simps)

subsection \<open>Strings\<close>

lemma strip_runes_none:
  "find (\<lambda>p. p \<noteq> [] \<and> HasPrefix s p) ps = None \<Longrightarrow> strip_runes ps s = s"
  by (simp add: strip_runes.simps)

lemma HasPrefix_hd: "p \<noteq> [] \<Longrightarrow> HasPrefix (c # cs) p \<Longrightarrow> hd p = c"
  by (cases p) (auto simp: HasPrefix_def)

lemma space_runes_heads:
  "\<forall>p \<in> set space_runes. \<not> plain_char (hd p)"
  "\<forall>p \<in> set (map rev space_runes). \<not> plain_char (hd p)"
  by (simp_all add: space_runes_def plain_char_def)

lemma no_space_prefix:
  assumes "plain_char c"
  shows "find (\<lambda>p. p \<noteq> [] \<and> HasPrefix (c # cs) p) space_runes = None"
    and "find (\<lambda>p. p \<noteq> [] \<and> HasPrefix (c # cs) p) (map rev space_runes) = None"
  using assms space_runes_heads HasPrefix_hd [of _ c cs]
  unfolding find_None_iff by blast+

lemma TrimSpace_plain:
  assumes "s \<noteq> []" "plain_char (hd s)" "plain_char (last s)"
  shows "TrimSpace s = s"
proof -
  from assms obtain c cs where s: "s = c # cs" and c: "plain_char c" by (cases s) auto
  have l: "strip_runes space_runes s = s"
    unfolding s using c by (intro strip_runes_none no_space_prefix)
  from assms have "rev s = last s # rev (butlast s)"
    by (metis append_butlast_last_id rev.simps(2) rev_swap)
  then have "strip_runes (map rev space_runes) (rev s) = rev s"
    using assms(3) by (metis strip_runes_none no_space_prefix(2))
  with l show ?thesis by (simp add: TrimSpace_def)
qed

lemma is_digit_plain: "is_digit c \<Longrightarrow> plain_char c"
  by (auto simp: is_digit_def plain_char_def)

lemma digits_TrimSpace:
  assumes "ds \<noteq> []" "list_all is_digit ds"
  shows "TrimSpace ds = ds"
proof (rule TrimSpace_plain)
  show "ds \<noteq> []" by fact
  from assms have "is_digit (hd ds)" "is_digit (last ds)"
    by (auto simp: list_all_iff)
  then show "plain_char (hd ds)" "plain_char (last ds)" by (auto intro: is_digit_plain)
qed

lemma Atoi_digits:
  assumes "ds \<noteq> []" "list_all is_digit ds" "dec_value ds < 2 ^ 63"
  shows "Atoi ds = Some (int (dec_value ds))"
proof -
  from assms have "is_digit (hd ds)" by (auto simp: list_all_iff)
  then have "hd ds \<noteq> CHR ''-''" "hd ds \<noteq> CHR ''+''" by (auto simp: is_digit_def)
  with assms show ?thesis by (simp add: Atoi_def)
qed

lemma minutes_sint:
  assumes "n \<le> 153722867"
  shows "sint (word_of_int (int n) * Minute) = int n * 60000000000"
proof -
  have e: "(word_of_int (int n) * Minute :: 64 word) = word_of_int (int n * 60000000000)"
    by (simp add: Minute_def Second_def)
  have "sint (word_of_int (int n * 60000000000) :: 64 word)
      = signed_take_bit (LENGTH(64) - 1) (int n * 60000000000)"
    by (rule sint_sbintrunc')
  also have "\<dots> = int n * 60000000000"
    using assms by (intro signed_take_bit_int_eq_self) auto
  finally show ?thesis unfolding e .
qed

lemma ParseDuration_digits:
  assumes "ds \<noteq> []" "list_all is_digit ds" "dec_value ds \<le> 153722867"
  shows "ParseDuration frac ds = Inr (word_of_int (int (dec_value ds)) * Minute)"
proof -
  from assms(3) have "dec_value ds < 2 ^ 63" by simp
  with assms show ?thesis
    by (simp add: ParseDuration_def digits_TrimSpace Atoi_digits)
qed

lemma show_nat_digits: "list_all is_digit (show_nat n) \<and> show_nat n \<noteq> []"
proof (induction n rule: show_nat.induct)
  case (1 n)
  have d: "is_digit (digit_char k)" for k by (simp add: digit_char_def is_digit_def)
  show ?case
  proof (cases "n < 10")
    case True then show ?thesis using d by (simp add: show_nat.simps)
  next
    case False
    with 1 show ?thesis using d by (subst (1 2) show_nat.simps) simp
  qed
qed

lemma dec_value_snoc: "dec_value (ds @ [c]) = dec_value ds * 10 + digit_val c"
  by (simp add: dec_value_def)

lemma dec_value_show_nat: "dec_value (show_nat n) = n"
proof (induction n rule: show_nat.induct)
  case (1 n)
  have d: "k < 10 \<Longrightarrow> digit_val (digit_char k) = k" for k
    by (simp add: digit_char_def digit_val_def)
  show ?case
  proof (cases "n < 10")
    case True then show ?thesis using d by (simp add: show_nat.simps dec_value_def)
  next
    case False
    with 1 have "dec_value (show_nat (n div 10)) = n div 10" by simp
    with False show ?thesis using d [of "n mod 10"]
      by (subst show_nat.simps) (simp add: dec_value_snoc)
  qed
qed


subsection \<open>Time zones\<close>

lemma sample_env_fields:
  "LoadLocation sample_env name
     = (if name = [] \<or> name = ''UTC'' then Some UTC
        else if name = ''Local'' then Some Local
        else if name = ''America/Chicago'' then Some (Zone name) else None)"
  "environ sample_env key = None"
  "Now_parseRelative sample_env = \<lparr>instant = 65056987800000000000, zone = Local\<rparr>"
  "Now_parseTimeOnly sample_env = \<lparr>instant = 65056987801000000000, zone = Local\<rparr>"
  "time_Date sample_env y mo d h mi s ns l
     = \<lparr>instant = ((((((y * 12 + mo) * 31 + d) * 24 + h) * 60 + mi) * 60 + s) * 1000000000 + ns),
        zone = l\<rparr>"
  "Time_Date sample_env t
     = (instant t div 86400000000000 div 372, instant t div 86400000000000 mod 372 div 31,
        instant t div 86400000000000 mod 31)"
  "Time_Clock sample_env t
     = (instant t div 1000000000 mod 86400 div 3600, instant t div 1000000000 mod 3600 div 60,
        instant t div 1000000000 mod 60)"
  "dateparse_ParseIn sample_env inp l
     = (if inp = ''2024-01-15 14:00'' then Some \<lparr>instant = 5000, zone = l\<rparr> else None)"
  "ParseInLocation sample_env f inp l
     = (if f = ''2006-01-02'' \<and> inp = ''2024-01-16'' then Some \<lparr>instant = 6000, zone = l\<rparr> else None)"
  "unicode_ToLower sample_env inp = inp"
  by (simp_all add: sample_env_def)

lemmas eval_getLocation = getLocation_def os_Getenv_def errorf_w_def sample_env_fields

text \<open>
  C6 (as amended). An explicit time zone name that is not empty decides alone: the
  result is that zone when \<open>time.LoadLocation\<close> knows the name and the error
  \<open>ErrInvalidTimezone\<close> when it does not, whatever the environment holds. With no
  explicit name, a value of \<open>TZ\<close> that is not empty decides in the same way.
  With no explicit name and \<open>TZ\<close> unset or set to the empty string, the result is
  the local time zone, and never an error.
\<close>

theorem getLocation_priority:
  "(timezone \<noteq> [] \<longrightarrow>
      getLocation E timezone
        = (case LoadLocation E timezone of
             Some loc \<Rightarrow> Inr loc
           | None \<Rightarrow> Inl (Wrapped ErrInvalidTimezone (''invalid timezone: '' @ timezone)))
      \<and> getLocation (E\<lparr>environ := other\<rparr>) timezone = getLocation E timezone)
   \<and> (timezone = [] \<and> environ E ''TZ'' = Some tz \<and> tz \<noteq> [] \<longrightarrow>
      getLocation E timezone
        = (case LoadLocation E tz of
             Some loc \<Rightarrow> Inr loc
           | None \<Rightarrow>
               Inl (Wrapped ErrInvalidTimezone
                      (''invalid timezone: '' @ tz @ '' (from TZ environment variable)''))))
   \<and> (timezone = [] \<and> (environ E ''TZ'' = None \<or> environ E ''TZ'' = Some []) \<longrightarrow>
      getLocation E timezone = Inr Local)"
  by (auto simp: getLocation_def os_Getenv_def errorf_w_def split: option.splits)

theorem getLocation_priority_witness:
  "getLocation sample_env ''America/Chicago'' = Inr (Zone ''America/Chicago'')
   \<and> getLocation tz_chicago_env ''UTC'' = Inr UTC
   \<and> getLocation sample_env ''Mars/Phobos''
       = Inl (Wrapped ErrInvalidTimezone ''invalid timezone: Mars/Phobos'')
   \<and> getLocation tz_chicago_env [] = Inr (Zone ''America/Chicago'')
   \<and> getLocation (sample_env\<lparr>environ := (\<lambda>key. Some ''Mars/Phobos'')\<rparr>) []
       = Inl (Wrapped ErrInvalidTimezone
                ''invalid timezone: Mars/Phobos (from TZ environment variable)'')
   \<and> getLocation sample_env [] = Inr Local
   \<and> getLocation tz_empty_env [] = Inr Local"
  using getLocation_priority [of "''America/Chicago''" sample_env "\<lambda>key. None"]
        getLocation_priority [of "''UTC''" tz_chicago_env "\<lambda>key. None"]
        getLocation_priority [of "''Mars/Phobos''" sample_env "\<lambda>key. None"]
        getLocation_priority [of "[]" tz_chicago_env _ "''America/Chicago''"]
        getLocation_priority [of "[]" "sample_env\<lparr>environ := (\<lambda>key. Some ''Mars/Phobos'')\<rparr>" _ "''Mars/Phobos''"]
        getLocation_priority [of "[]" sample_env]
        getLocation_priority [of "[]" tz_empty_env]
  by (simp add: sample_env_fields tz_empty_env_def tz_chicago_env_def)

text \<open>
  With \<open>TZ\<close> set to the empty string, a name that \<open>time.LoadLocation\<close> resolves
  to UTC, \<open>getLocation\<close> neither returns that zone nor fails: it returns the local
  time zone.
\<close>

theorem getLocation_empty_TZ:
  "environ tz_empty_env ''TZ'' = Some [] \<and> LoadLocation tz_empty_env [] = Some UTC
   \<and> getLocation tz_empty_env [] = Inr Local"
  by (simp add: tz_empty_env_def eval_getLocation)


subsection \<open>Resolution order of \<open>ParseTime\<close>\<close>

lemma try_formats_find:
  "try_formats E fs input loc =
     (case List.find (\<lambda>format. ParseInLocation E format input loc \<noteq> None) fs of
        Some format \<Rightarrow> Some (the (ParseInLocation E format input loc))
      | None \<Rightarrow> None)"
  by (induction fs) (auto split: option.splits)

lemma parseStandard_stage: "parseStandard E input loc = stage_general E input loc"
  by (simp add: parseStandard_def stage_general_def try_formats_find split: option.splits)

lemma today_not_tomorrow: "\<not> (HasPrefix s ''today'' \<and> HasPrefix s ''tomorrow'')"
proof
  assume "HasPrefix s ''today'' \<and> HasPrefix s ''tomorrow''"
  then have a: "take 5 s = ''today''" and b: "take 8 s = ''tomorrow''"
    by (simp_all add: HasPrefix_def numeral_eq_Suc)
  have "take 3 (take 5 s) = take 3 (take 8 s)" by simp
  then show False unfolding a b by simp
qed

lemma parseRelative_stages:
  "parseRelative E input loc =
     (case stage_relative_duration E input loc of
        Some t \<Rightarrow> Some t
      | None \<Rightarrow> stage_relative_day E input loc)"
  using today_not_tomorrow [of "ToLower (unicode_ToLower E) input"]
  by (auto simp: parseRelative_def stage_relative_duration_def stage_relative_day_def Let_def
           split: option.splits)


lemmas eval_parse = ParseTime_def TrimSpace_def strip_runes.simps space_runes_def HasPrefix_def
      getLocation_def sample_env_fields parseRelative_def ToLower_def ascii_lower_def
      parseInDuration_def match_inDuration_def re_space_def is_digit_def Atoi_def dec_value_def
      digit_val_def time_Add_def time_In_def Hour_def Minute_def Second_def Let_def
      parseDayWithTime_def match_dayTime_def match_clock_def match_clock_tail_def clock_fields_def time_AddDate_def
      parseTimeOnly_def match_timeOnly_def parseStandard_def formats_def could_not_parse_def
      errorf_w_def os_Getenv_def stage_relative_duration_def stage_relative_day_def
      stage_time_only_def stage_general_def

text \<open>
  C7. For an input that is not empty once trimmed, and a time zone that resolves,
  \<open>ParseTime\<close> returns what the first matching stage returns, the stages taken in
  the order relative duration, relative day, time only; when none of the three
  matches, the result is that of the general stage (the flexible parser, then the
  layouts of \<open>formats\<close> in their order).
\<close>

theorem ParseTime_stage_order:
  "TrimSpace input0 \<noteq> [] \<and> getLocation E timezone = Inr loc \<longrightarrow>
     ParseTime E input0 timezone
       = first_match [stage_relative_duration E (TrimSpace input0) loc,
                      stage_relative_day E (TrimSpace input0) loc,
                      stage_time_only E (TrimSpace input0) loc]
           (stage_general E (TrimSpace input0) loc)"
  by (auto simp: ParseTime_def Let_def parseRelative_stages parseStandard_stage stage_time_only_def
           split: option.splits)

theorem ParseTime_stage_order_witness:
  "ParseTime sample_env '' In 2 Hours '' ''UTC'' = Inr \<lparr>instant = 65056995000000000000, zone = UTC\<rparr>
   \<and> ParseTime sample_env ''tomorrow at 9:05'' ''UTC''
       = Inr \<lparr>instant = 65057072700000000000, zone = UTC\<rparr>
   \<and> ParseTime sample_env ''14:30:15'' [] = Inr \<lparr>instant = 65057005815000000000, zone = Local\<rparr>
   \<and> ParseTime sample_env ''2024-01-16'' [] = Inr \<lparr>instant = 6000, zone = Local\<rparr>"
  using ParseTime_stage_order [of "'' In 2 Hours ''" sample_env "''UTC''" UTC]
        ParseTime_stage_order [of "''tomorrow at 9:05''" sample_env "''UTC''" UTC]
        ParseTime_stage_order [of "''14:30:15''" sample_env "[]" Local]
        ParseTime_stage_order [of "''2024-01-16''" sample_env "[]" Local]
  by (simp add: eval_parse)


subsection \<open>Durations\<close>

text \<open>
  C9 (as amended). For a string of decimal digits whose value \<open>N\<close> is at most
  153722867, \<open>ParseDuration\<close> returns \<open>N\<close> minutes, and dividing the result by a
  minute gives \<open>N\<close> back; so it does for the decimal numeral of every such \<open>N\<close>.
  \<open>"30"\<close> and \<open>"30m"\<close> both give 1800 seconds.
\<close>

theorem ParseDuration_bare_minutes:
  "(ds \<noteq> [] \<and> list_all is_digit ds \<and> dec_value ds \<le> 153722867 \<longrightarrow>
      (\<exists>d. ParseDuration frac ds = Inr d \<and> sint d = int (dec_value ds) * sint Minute
           \<and> sint d div sint Minute = int (dec_value ds)))
   \<and> (n \<le> 153722867 \<longrightarrow> ParseDuration frac (show_nat n) = Inr (word_of_nat n * Minute))
   \<and> ParseDuration frac ''30'' = Inr (1800 * Second)
   \<and> ParseDuration frac ''30m'' = Inr (1800 * Second)"
proof -
  have m: "sint Minute = 60000000000" by (simp add: Minute_def Second_def)
  have a: "\<exists>d. ParseDuration frac ds = Inr d \<and> sint d = int (dec_value ds) * sint Minute
           \<and> sint d div sint Minute = int (dec_value ds)"
    if "ds \<noteq> []" "list_all is_digit ds" "dec_value ds \<le> 153722867"
    using that ParseDuration_digits [of ds frac] minutes_sint [of "dec_value ds"]
    by (simp add: m)
  have b: "ParseDuration frac (show_nat n) = Inr (word_of_nat n * Minute)" if "n \<le> 153722867"
    using that ParseDuration_digits [of "show_nat n" frac] show_nat_digits [of n]
    by (simp add: dec_value_show_nat)
  have c: "ParseDuration frac ''30'' = Inr (1800 * Second)"
    by (simp add: ParseDuration_def TrimSpace_def strip_runes.simps space_runes_def HasPrefix_def
      Atoi_def is_digit_def dec_value_def digit_val_def Minute_def Second_def)
  have d: "ParseDuration frac ''30m'' = Inr (1800 * Second)"
    by (simp add: ParseDuration_def TrimSpace_def strip_runes.simps space_runes_def HasPrefix_def
      Atoi_def is_digit_def dec_value_def digit_val_def time_ParseDuration_def Second_def
      ParseDuration_loop.simps duration_component_def duration_fraction_def unit_char_def unitMap_def)
  from a b c d show ?thesis by blast
qed

theorem ParseDuration_bare_minutes_witness:
  "(\<exists>d. ParseDuration exact_frac ''090'' = Inr d \<and> sint d = 5400000000000
        \<and> sint d div 60000000000 = 90)
   \<and> ParseDuration exact_frac (show_nat 45) = Inr 2700000000000"
  using ParseDuration_bare_minutes [of "''090''" exact_frac 45]
  by (simp add: is_digit_def dec_value_def digit_val_def Minute_def Second_def)

text \<open>
  153722868 minutes are more nanoseconds than an \<open>int64\<close> holds: the product wraps
  around and \<open>ParseDuration\<close> returns a negative duration.
\<close>

theorem ParseDuration_minutes_overflow:
  "list_all is_digit ''153722868'' \<and> dec_value ''153722868'' = 153722868
   \<and> ParseDuration exact_frac ''153722868'' = Inr (- 9223371993709551616)
   \<and> sint (- 9223371993709551616 :: Duration) = - 9223371993709551616"
  by (simp add: ParseDuration_def TrimSpace_def strip_runes.simps space_runes_def HasPrefix_def
      Atoi_def is_digit_def dec_value_def digit_val_def Minute_def Second_def)


subsection \<open>Cached tokens\<close>

lemma auth_sample_env_fields:
  "ReadFile auth_sample_env path
     = (if path = ''credentials.json'' then Inr ''credentials''
        else if path = ''token.json'' then Inr ''cached''
        else if path = ''zero.json'' then Inr ''zero''
        else if path = ''soon.json'' then Inr ''soon''
        else Inl ''no such file or directory'')"
  "WriteFile auth_sample_env path data = None"
  "ConfigFromJSON auth_sample_env data
     = (if data = ''credentials'' then Inr sample_config else Inl ''unexpected end of JSON input'')"
  "json_Unmarshal auth_sample_env data
     = (if data = ''cached'' then Inr cached_token
        else if data = ''zero'' then Inr zero_expiry_token
        else if data = ''soon'' then Inr soon_token
        else Inl ''unexpected end of JSON input'')"
  "json_MarshalIndent auth_sample_env token = AccessToken token"
  "timeNow auth_sample_env = clock_now"
  "TokenSource_Token auth_sample_env ctx cfg token
     = (if ctx = Ctx_Active \<and> RefreshToken token \<noteq> [] then Inr fresh_token
        else Inl ''cannot fetch token'')"
  "Exchange auth_sample_env ctx cfg code
     = (if ctx = Ctx_Active then Inr fresh_token else Inl ''context canceled'')"
  "net_Listen auth_sample_env = Inr 49152"
  "openBrowser auth_sample_env u = None"
  "requests auth_sample_env = [\<lparr>query = [(''state'', ''state-token''), (''code'', ''4/0AbCd'')]\<rparr>]"
  "select_choice auth_sample_env = hd"
  by (simp_all add: auth_sample_env_def)

lemma Token_Valid_iff:
  "Token_Valid now t \<longleftrightarrow>
     AccessToken t \<noteq> []
     \<and> (instant (Expiry t) = 0 \<or> instant now \<le> instant (Expiry t) - 10000000000)"
proof -
  have "sint (- expiryDelta) = - 10000000000"
    by (simp add: expiryDelta_def Second_def)
  then show ?thesis
    by (auto simp: Token_Valid_def Token_expired_def time_IsZero_def time_Before_def time_Add_def)
qed

lemma authenticate_effects_listen: "Ef_Listen \<in> set (snd (snd (authenticate E a ctx)))"
  by (auto simp: authenticate_def flow_opening_def Let_def
           split: sum.splits option.splits select_case.splits)

lemmas eval_auth = GetToken_def ensure_config_def LoadCredentials_def loadToken_def
  auth_sample_env_fields sample_auth_def Token_Valid_def Token_expired_def time_IsZero_def
  time_Before_def time_Add_def expiryDelta_def Second_def clock_now_def cached_token_def
  zero_expiry_token_def soon_token_def fresh_token_def zero_time_def saveToken_def

text \<open>
  C1 (as amended). Once the credentials are there and the token file holds a token,
  \<open>GetToken\<close> returns that token with no refresh and no interactive flow exactly
  when its access token is not empty and its expiry is either the zero time (such a
  token never expires) or at least ten seconds after the clock's reading.
\<close>

theorem GetToken_cache_iff_Valid:
  "fst (ensure_config E a) = Inr a1 \<and> loadToken E a1 = Inr token \<longrightarrow>
     ((fst (GetToken E a ctx) = Inr token
        \<and> Ef_Refresh \<notin> set (snd (snd (GetToken E a ctx)))
        \<and> Ef_Listen \<notin> set (snd (snd (GetToken E a ctx))))
      \<longleftrightarrow> (AccessToken token \<noteq> []
           \<and> (time_IsZero (Expiry token)
               \<or> instant (timeNow E) \<le> instant (Expiry token) - 10000000000)))"
proof (intro impI)
  assume h: "fst (ensure_config E a) = Inr a1 \<and> loadToken E a1 = Inr token"
  then obtain reads where e: "ensure_config E a = (Inr a1, reads)"
    by (cases "ensure_config E a") auto
  have r: "Ef_Refresh \<notin> set reads" "Ef_Listen \<notin> set reads"
    using e by (auto simp: ensure_config_def split: if_splits prod.splits option.splits)
  show "(fst (GetToken E a ctx) = Inr token
        \<and> Ef_Refresh \<notin> set (snd (snd (GetToken E a ctx)))
        \<and> Ef_Listen \<notin> set (snd (snd (GetToken E a ctx))))
      \<longleftrightarrow> (AccessToken token \<noteq> []
           \<and> (time_IsZero (Expiry token)
               \<or> instant (timeNow E) \<le> instant (Expiry token) - 10000000000))"
  proof (cases "Token_Valid (timeNow E) token")
    case True
    with h e r have "GetToken E a ctx = (Inr token, a1, reads @ [Ef_ReadFile (tokenPath a1)])"
      by (simp add: GetToken_def)
    with True r show ?thesis by (simp add: Token_Valid_iff time_IsZero_def)
  next
    case False
    have "Ef_Refresh \<in> set (snd (snd (GetToken E a ctx)))
        \<or> fst (GetToken E a ctx) = Inl (Panic ''nil pointer dereference'')"
      using h e False
      by (auto simp: GetToken_def split: option.splits sum.splits prod.splits)
    with False show ?thesis by (auto simp: Token_Valid_iff time_IsZero_def)
  qed
qed

theorem GetToken_cache_iff_Valid_witness:
  "fst (GetToken auth_sample_env sample_auth Ctx_Active) = Inr cached_token
   \<and> Ef_Refresh \<notin> set (snd (snd (GetToken auth_sample_env sample_auth Ctx_Active)))
   \<and> Ef_Listen \<notin> set (snd (snd (GetToken auth_sample_env sample_auth Ctx_Active)))"
  using GetToken_cache_iff_Valid [of auth_sample_env sample_auth
          "sample_auth\<lparr>config := Some sample_config\<rparr>" cached_token Ctx_Active]
  by (simp add: ensure_config_def LoadCredentials_def loadToken_def auth_sample_env_fields
        sample_auth_def cached_token_def clock_now_def time_IsZero_def)

text \<open>
  A stored token whose expiry is the zero time, which is not in the future, comes back
  from the cache; a stored token that expires five seconds from now, which is in the
  future, does not: it is refreshed.
\<close>

theorem GetToken_zero_expiry_cached:
  "GetToken auth_sample_env (sample_auth\<lparr>tokenPath := ''zero.json''\<rparr>) Ctx_Active
     = (Inr zero_expiry_token,
        sample_auth\<lparr>tokenPath := ''zero.json'', config := Some sample_config\<rparr>,
        [Ef_ReadFile ''credentials.json'', Ef_ReadFile ''zero.json''])
   \<and> Expiry zero_expiry_token = zero_time
   \<and> instant (Expiry zero_expiry_token) < instant (timeNow auth_sample_env)
   \<and> GetToken auth_sample_env (sample_auth\<lparr>tokenPath := ''soon.json''\<rparr>) Ctx_Active
     = (Inr fresh_token,
        sample_auth\<lparr>tokenPath := ''soon.json'', config := Some sample_config\<rparr>,
        [Ef_ReadFile ''credentials.json'', Ef_ReadFile ''soon.json'', Ef_Refresh,
         Ef_WriteFile ''soon.json'' ''fresh-access-token''])
   \<and> instant (timeNow auth_sample_env) < instant (Expiry soon_token)"
  by (simp add: eval_auth)

text \<open>
  C10. Once the credentials are there and the token file holds a valid token,
  \<open>GetToken\<close> returns it for every context, cancelled and expired ones included,
  with the same authenticator and the same effects; the effects are file reads only,
  and the result does not depend on the token endpoint or on the listener.
\<close>

theorem GetToken_cached_ignores_context:
  "fst (ensure_config E a) = Inr a1 \<and> loadToken E a1 = Inr token \<and> Token_Valid (timeNow E) token \<longrightarrow>
     GetToken E a ctx = (Inr token, a1, snd (ensure_config E a) @ [Ef_ReadFile (tokenPath a1)])
     \<and> GetToken E a Ctx_Canceled = GetToken E a Ctx_Active
     \<and> GetToken E a Ctx_DeadlineExceeded = GetToken E a Ctx_Active
     \<and> GetToken (E\<lparr>TokenSource_Token := refresh, Exchange := exchange, net_Listen := listen\<rparr>) a ctx
         = GetToken E a ctx
     \<and> (\<forall>e \<in> set (snd (snd (GetToken E a ctx))). \<exists>path. e = Ef_ReadFile path)"
proof (intro impI)
  assume h: "fst (ensure_config E a) = Inr a1 \<and> loadToken E a1 = Inr token \<and> Token_Valid (timeNow E) token"
  then obtain reads where e: "ensure_config E a = (Inr a1, reads)"
    by (cases "ensure_config E a") auto
  have g: "GetToken E a c = (Inr token, a1, reads @ [Ef_ReadFile (tokenPath a1)])" for c
    using h e by (simp add: GetToken_def)
  let ?E = "E\<lparr>TokenSource_Token := refresh, Exchange := exchange, net_Listen := listen\<rparr>"
  have "ensure_config ?E a = ensure_config E a" "loadToken ?E a1 = loadToken E a1"
    by (simp_all add: ensure_config_def LoadCredentials_def loadToken_def split: sum.splits)
  with h e have g': "GetToken ?E a ctx = (Inr token, a1, reads @ [Ef_ReadFile (tokenPath a1)])"
    by (simp add: GetToken_def)
  have r: "\<forall>e \<in> set reads. \<exists>path. e = Ef_ReadFile path"
    using e by (auto simp: ensure_config_def split: if_splits prod.splits option.splits)
  show "GetToken E a ctx = (Inr token, a1, snd (ensure_config E a) @ [Ef_ReadFile (tokenPath a1)])
     \<and> GetToken E a Ctx_Canceled = GetToken E a Ctx_Active
     \<and> GetToken E a Ctx_DeadlineExceeded = GetToken E a Ctx_Active
     \<and> GetToken ?E a ctx = GetToken E a ctx
     \<and> (\<forall>e \<in> set (snd (snd (GetToken E a ctx))). \<exists>path. e = Ef_ReadFile path)"
    using g g' r e by auto
qed

theorem GetToken_cached_ignores_context_witness:
  "GetToken auth_sample_env sample_auth Ctx_Canceled
     = (Inr cached_token, sample_auth\<lparr>config := Some sample_config\<rparr>,
        [Ef_ReadFile ''credentials.json'', Ef_ReadFile ''token.json''])"
  using GetToken_cached_ignores_context [where E = auth_sample_env and a = sample_auth
          and ?a1.0 = "sample_auth\<lparr>config := Some sample_config\<rparr>" and token = cached_token
          and ctx = Ctx_Canceled and refresh = "TokenSource_Token auth_sample_env"
          and exchange = "Exchange auth_sample_env" and listen = "net_Listen auth_sample_env"]
  by (simp add: ensure_config_def LoadCredentials_def loadToken_def auth_sample_env_fields
        sample_auth_def cached_token_def clock_now_def time_IsZero_def Token_Valid_iff)


subsection \<open>The interactive flow\<close>

lemma flow_states_append: "flow_states (xs @ ys) = flow_states xs @ flow_states ys"
  by (simp add: flow_states_def)

lemma flow_states_opening:
  "flow_states (flow_opening E u) = map snd (filter (\<lambda>p. fst p = ''state'') (url_query u))"
  by (cases "openBrowser E u") (simp_all add: flow_states_def flow_opening_def)

lemma flow_url_state:
  "map snd (filter (\<lambda>p. fst p = ''state'') (url_query (flow_url cfg port))) = [''state-token'']"
  "map_of (url_query (flow_url cfg port)) ''state'' = Some ''state-token''"
  by (simp_all add: flow_url_def AuthCodeURL_def AccessTypeOffline_def)

lemma authenticate_effects:
  assumes "config a = Some cfg" "net_Listen E = Inr port"
  shows "\<exists>rest. snd (snd (authenticate E a ctx)) = flow_opening E (flow_url cfg port) @ rest
           \<and> flow_states rest = []"
proof -
  let ?w = "select_wait E ctx (serve_requests empty_channels (requests E))"
  show ?thesis
  proof (cases ?w)
    case (CodeReceived code)
    with assms show ?thesis
      by (cases "Exchange E ctx (cfg\<lparr>RedirectURL := ''http://localhost:'' @ show_int port\<rparr>) code")
         (auto simp: authenticate_def Let_def flow_states_def split: option.splits)
  qed (use assms in \<open>simp_all add: authenticate_def Let_def flow_states_def\<close>)
qed

lemma authenticate_flow_states:
  assumes "config a = Some cfg" "net_Listen E = Inr port"
  shows "flow_states (snd (snd (authenticate E a ctx))) = [''state-token'']"
proof -
  from authenticate_effects [OF assms] obtain rest where
    "snd (snd (authenticate E a ctx)) = flow_opening E (flow_url cfg port) @ rest"
    "flow_states rest = []" by blast
  then show ?thesis by (simp add: flow_states_append flow_states_opening flow_url_state)
qed

lemma authenticate_opens_flow_url:
  assumes "config a = Some cfg" "net_Listen E = Inr port"
  shows "Ef_OpenBrowser (flow_url cfg port) \<in> set (snd (snd (authenticate E a ctx)))"
proof -
  from authenticate_effects [OF assms] obtain rest where
    "snd (snd (authenticate E a ctx)) = flow_opening E (flow_url cfg port) @ rest" by blast
  then show ?thesis by (simp add: flow_opening_def)
qed

text \<open>
  C2 (as amended). In every run of the interactive flow whose listener starts, the
  authorization URL that is opened carries the state value \<open>state-token\<close>, a
  constant of the program.
\<close>

theorem authenticate_state_fixed:
  "config a = Some cfg \<and> net_Listen E = Inr port \<longrightarrow>
     flow_states (snd (snd (authenticate E a ctx))) = [''state-token'']
     \<and> Ef_OpenBrowser (flow_url cfg port) \<in> set (snd (snd (authenticate E a ctx)))
     \<and> map_of (url_query (flow_url cfg port)) ''state'' = Some ''state-token''"
  using authenticate_flow_states authenticate_opens_flow_url flow_url_state(2) by blast

theorem authenticate_state_fixed_witness:
  "flow_states (snd (snd (authenticate auth_sample_env
       (sample_auth\<lparr>config := Some sample_config\<rparr>) Ctx_Active))) = [''state-token'']"
  using authenticate_state_fixed [of "sample_auth\<lparr>config := Some sample_config\<rparr>" sample_config
          auth_sample_env 49152 Ctx_Active]
  by (simp add: sample_auth_def auth_sample_env_fields)

text \<open>
  Two runs that differ in the port, in the requests they receive, in the clock and in
  the context open URLs with the same state value.
\<close>

theorem authenticate_same_state_twice:
  "flow_states (snd (snd (authenticate auth_sample_env
       (sample_auth\<lparr>config := Some sample_config\<rparr>) Ctx_Active)))
   = flow_states (snd (snd (authenticate
       (auth_sample_env\<lparr>net_Listen := Inr 50000, requests := [], timeNow := zero_time\<rparr>)
       (sample_auth\<lparr>config := Some sample_config\<rparr>) Ctx_Canceled)))
   \<and> flow_states (snd (snd (authenticate auth_sample_env
       (sample_auth\<lparr>config := Some sample_config\<rparr>) Ctx_Active))) = [''state-token'']"
proof -
  have "flow_states (snd (snd (authenticate auth_sample_env
       (sample_auth\<lparr>config := Some sample_config\<rparr>) Ctx_Active))) = [''state-token'']"
    by (rule authenticate_flow_states [where cfg = sample_config and port = 49152])
       (simp_all add: auth_sample_env_fields)
  moreover have "flow_states (snd (snd (authenticate
       (auth_sample_env\<lparr>net_Listen := Inr 50000, requests := [], timeNow := zero_time\<rparr>)
       (sample_auth\<lparr>config := Some sample_config\<rparr>) Ctx_Canceled))) = [''state-token'']"
    by (rule authenticate_flow_states [where cfg = sample_config and port = 50000]) simp_all
  ultimately show ?thesis by simp
qed


subsection \<open>The callback listener\<close>

text \<open>
  C5 (as amended). With the channel it writes to empty: a request whose first
  \<open>code\<close> value is not empty puts that value on the code channel and is answered
  with status 200 and the content type \<open>text/html\<close>; a request with no \<open>code\<close>
  value and no \<open>error\<close> value puts the error \<open>no authorization code received\<close>
  on the error channel and is answered with status 400; a request with no \<open>code\<close>
  value and an \<open>error\<close> value that is not empty puts that value on the error
  channel and is answered with status 400. An empty value counts as no value.
\<close>

theorem callback_handler_delivers:
  "(Query_Get (query r) ''code'' \<noteq> [] \<and> codeChan ch = [] \<longrightarrow>
      callback_handler ch r
        = Responded (ch\<lparr>codeChan := [Query_Get (query r) ''code'']\<rparr>)
            \<lparr>resp_status = 200, resp_headers = [(''Content-Type'', ''text/html'')],
             resp_body = success_page\<rparr>)
   \<and> (Query_Get (query r) ''code'' = [] \<and> Query_Get (query r) ''error'' = [] \<and> errChan ch = [] \<longrightarrow>
      callback_handler ch r
        = Responded (ch\<lparr>errChan := [Plain ''no authorization code received'']\<rparr>)
            (http_Error ''Authorization failed'' 400))
   \<and> (Query_Get (query r) ''code'' = [] \<and> Query_Get (query r) ''error'' \<noteq> [] \<and> errChan ch = [] \<longrightarrow>
      callback_handler ch r
        = Responded (ch\<lparr>errChan := [Plain (Query_Get (query r) ''error'')]\<rparr>)
            (http_Error ''Authorization failed'' 400))
   \<and> resp_status (http_Error ''Authorization failed'' 400) = 400"
  by (simp add: callback_handler_def chan_send_def http_Error_def)

theorem callback_handler_delivers_witness:
  "callback_handler empty_channels \<lparr>query = [(''code'', ''test-auth-code'')]\<rparr>
     = Responded \<lparr>codeChan = [''test-auth-code''], errChan = []\<rparr>
         \<lparr>resp_status = 200, resp_headers = [(''Content-Type'', ''text/html'')],
          resp_body = success_page\<rparr>
   \<and> callback_handler empty_channels \<lparr>query = []\<rparr>
     = Responded \<lparr>codeChan = [], errChan = [Plain ''no authorization code received'']\<rparr>
         (http_Error ''Authorization failed'' 400)
   \<and> callback_handler empty_channels \<lparr>query = [(''error'', ''access_denied'')]\<rparr>
     = Responded \<lparr>codeChan = [], errChan = [Plain ''access_denied'']\<rparr>
         (http_Error ''Authorization failed'' 400)"
  using callback_handler_delivers [of "\<lparr>query = [(''code'', ''test-auth-code'')]\<rparr>" empty_channels]
        callback_handler_delivers [of "\<lparr>query = []\<rparr>" empty_channels]
        callback_handler_delivers [of "\<lparr>query = [(''error'', ''access_denied'')]\<rparr>" empty_channels]
  by (simp add: Query_Get_def empty_channels_def)

text \<open>
  A request \<open>/?code=\<close> has a \<open>code\<close> parameter, with the empty value: nothing
  goes to the code channel, the default error goes to the error channel and the
  answer has status 400.
\<close>

theorem callback_handler_empty_code:
  "map_of (query \<lparr>query = [(''code'', [])]\<rparr>) ''code'' = Some []
   \<and> callback_handler empty_channels \<lparr>query = [(''code'', [])]\<rparr>
       = Responded \<lparr>codeChan = [], errChan = [Plain ''no authorization code received'']\<rparr>
           \<lparr>resp_status = 400,
            resp_headers = [(''Content-Type'', ''text/plain; charset=utf-8''),
                            (''X-Content-Type-Options'', ''nosniff'')],
            resp_body = ''Authorization failed'' @ [CHR 0x0A]\<rparr>"
  by (simp add: callback_handler_def chan_send_def http_Error_def Query_Get_def empty_channels_def)


subsection \<open>Event submission\<close>

lemma containsQuotaError_iff:
  "containsQuotaError_loop es \<longleftrightarrow>
     (\<exists>e \<in> set es. Reason e = ''quotaExceeded'' \<or> Reason e = ''rateLimitExceeded''
        \<or> Reason e = ''userRateLimitExceeded'')"
  by (induction es) auto

text \<open>
  C3. Whenever the title is empty, the start time is the zero time or the duration is
  not positive, \<open>CreateEvent\<close> returns the error \<open>ErrInvalidEventTime\<close> with the
  message of the first failing field (title, then start time, then duration) and the
  list of network calls is empty. Whenever the three checks pass, exactly one call is
  issued, and the end of the event it carries is the formatted instant
  \<open>start + duration\<close>, shown in the start's location.
\<close>

theorem CreateEvent_validates_before_network:
  "(Title params = [] \<longrightarrow>
      CreateEvent E c params
        = (Inl (Wrapped ErrInvalidEventTime ''invalid event time: title is required''), []))
   \<and> (Title params \<noteq> [] \<and> time_IsZero (StartTime params) \<longrightarrow>
      CreateEvent E c params
        = (Inl (Wrapped ErrInvalidEventTime ''invalid event time: start time is required''), []))
   \<and> (Title params \<noteq> [] \<and> \<not> time_IsZero (StartTime params) \<and> sint (Duration params) \<le> 0 \<longrightarrow>
      CreateEvent E c params
        = (Inl (Wrapped ErrInvalidEventTime ''invalid event time: duration must be positive''), []))
   \<and> (Title params \<noteq> [] \<and> \<not> time_IsZero (StartTime params) \<and> 0 < sint (Duration params) \<longrightarrow>
      (\<exists>event. snd (CreateEvent E c params) = [(calendarID c, event)]
         \<and> DateTime (End event)
             = Format_RFC3339 E \<lparr>instant = instant (StartTime params) + sint (Duration params),
                                  zone = zone (StartTime params)\<rparr>
         \<and> DateTime (Start event) = Format_RFC3339 E (StartTime params)))"
proof -
  have invalid: "Title params = [] \<or> time_IsZero (StartTime params) \<or> sint (Duration params) \<le> 0
      \<Longrightarrow> CreateEvent E c params = (Inl (the (validateEventParams params)), [])"
    by (auto simp: CreateEvent_def validateEventParams_def)
  have valid: "Title params \<noteq> [] \<Longrightarrow> \<not> time_IsZero (StartTime params) \<Longrightarrow> 0 < sint (Duration params)
      \<Longrightarrow> snd (CreateEvent E c params) = [(calendarID c, build_event E params)]"
    by (auto simp: CreateEvent_def validateEventParams_def Let_def split: sum.splits)
  have end_time: "time_Add (StartTime params) (Duration params)
      = \<lparr>instant = instant (StartTime params) + sint (Duration params), zone = zone (StartTime params)\<rparr>"
    by (simp add: time_Add_def)
  show ?thesis
    using invalid valid
    by (auto simp: validateEventParams_def errorf_w_def build_event_def Let_def end_time)
qed

theorem CreateEvent_validates_before_network_witness:
  "CreateEvent echo_env \<lparr>calendarID = ''primary''\<rparr> (meeting\<lparr>Title := []\<rparr>)
     = (Inl (Wrapped ErrInvalidEventTime ''invalid event time: title is required''), [])
   \<and> CreateEvent echo_env \<lparr>calendarID = ''primary''\<rparr> (meeting\<lparr>StartTime := zero_time\<rparr>)
     = (Inl (Wrapped ErrInvalidEventTime ''invalid event time: start time is required''), [])
   \<and> CreateEvent echo_env \<lparr>calendarID = ''primary''\<rparr> (meeting\<lparr>Duration := - 1\<rparr>)
     = (Inl (Wrapped ErrInvalidEventTime ''invalid event time: duration must be positive''), [])
   \<and> (\<exists>event. snd (CreateEvent echo_env \<lparr>calendarID = ''primary''\<rparr> meeting) = [(''primary'', event)]
         \<and> DateTime (End event) = ''10800'' \<and> DateTime (Start event) = ''7200'')"
proof -
  let ?c = "\<lparr>calendarID = ''primary''\<rparr>"
  note t1 = CreateEvent_validates_before_network [of "meeting\<lparr>Title := []\<rparr>" echo_env ?c]
  note t2 = CreateEvent_validates_before_network [of "meeting\<lparr>StartTime := zero_time\<rparr>" echo_env ?c]
  note t3 = CreateEvent_validates_before_network [of "meeting\<lparr>Duration := - 1\<rparr>" echo_env ?c]
  note t4 = CreateEvent_validates_before_network [of meeting echo_env ?c]
  have fmt: "Format_RFC3339 echo_env \<lparr>instant = 10800, zone = UTC\<rparr> = ''10800''"
            "Format_RFC3339 echo_env \<lparr>instant = 7200, zone = UTC\<rparr> = ''7200''"
    by (simp_all add: echo_env_def show_int_def show_nat.simps digit_char_def)
  show ?thesis
    using t1 t2 t3 t4 fmt
    by (simp add: meeting_def zero_time_def time_IsZero_def)
qed

text \<open>
  C4. \<open>wrapAPIError\<close> maps a structured provider error by its status code, and a
  transport-level error to \<open>ErrEventCreationFailed\<close> with the underlying text.
\<close>

theorem wrapAPIError_mapping:
  "(Code a = 400 \<longrightarrow> wrapAPIError (Structured a)
      = Wrapped ErrEventCreationFailed (''failed to create event: invalid request - '' @ Message a))
   \<and> (Code a = 401 \<longrightarrow> wrapAPIError (Structured a)
      = Wrapped ErrPermissionDenied
          ''permission denied: authentication expired, please re-authenticate'')
   \<and> (Code a = 403 \<and> (\<exists>e \<in> set (Errors a). Reason e = ''quotaExceeded''
          \<or> Reason e = ''rateLimitExceeded'' \<or> Reason e = ''userRateLimitExceeded'') \<longrightarrow>
        wrapAPIError (Structured a)
      = Wrapped ErrQuotaExceeded ''API quota exceeded: please try again later'')
   \<and> (Code a = 403 \<and> \<not> (\<exists>e \<in> set (Errors a). Reason e = ''quotaExceeded''
          \<or> Reason e = ''rateLimitExceeded'' \<or> Reason e = ''userRateLimitExceeded'') \<longrightarrow>
        wrapAPIError (Structured a)
      = Wrapped ErrPermissionDenied
          ''permission denied: you don't have permission to access this calendar'')
   \<and> (Code a = 404 \<longrightarrow> wrapAPIError (Structured a)
      = Wrapped ErrCalendarNotFound ''calendar not found: check that the calendar ID is correct'')
   \<and> (Code a = 429 \<longrightarrow> wrapAPIError (Structured a)
      = Wrapped ErrQuotaExceeded ''API quota exceeded: too many requests, please try again later'')
   \<and> (Code a \<notin> {400, 401, 403, 404, 429} \<longrightarrow> wrapAPIError (Structured a)
      = Wrapped ErrEventCreationFailed
          (''failed to create event: '' @ Message a @ '' (code: '' @ show_int (Code a) @ '')''))
   \<and> wrapAPIError (Transport msg)
      = Wrapped ErrEventCreationFailed (''failed to create event: '' @ msg)"
  by (simp add: wrapAPIError_def errorf_w_def containsQuotaError_def containsQuotaError_iff)


theorem wrapAPIError_mapping_witness:
  "wrapAPIError (Structured \<lparr>Code = 400, Message = ''Invalid request'', Errors = []\<rparr>)
     = Wrapped ErrEventCreationFailed ''failed to create event: invalid request - Invalid request''
   \<and> wrapAPIError (Structured \<lparr>Code = 401, Message = ''Unauthorized'', Errors = []\<rparr>)
     = Wrapped ErrPermissionDenied
         ''permission denied: authentication expired, please re-authenticate''
   \<and> wrapAPIError (Structured quota_error)
     = Wrapped ErrQuotaExceeded ''API quota exceeded: please try again later''
   \<and> wrapAPIError (Structured \<lparr>Code = 403, Message = ''Forbidden'', Errors = []\<rparr>)
     = Wrapped ErrPermissionDenied
         ''permission denied: you don't have permission to access this calendar''
   \<and> wrapAPIError (Structured \<lparr>Code = 404, Message = ''Not found'', Errors = []\<rparr>)
     = Wrapped ErrCalendarNotFound ''calendar not found: check that the calendar ID is correct''
   \<and> wrapAPIError (Structured \<lparr>Code = 429, Message = ''Rate limited'', Errors = []\<rparr>)
     = Wrapped ErrQuotaExceeded ''API quota exceeded: too many requests, please try again later''
   \<and> wrapAPIError (Structured \<lparr>Code = 500, Message = ''Internal error'', Errors = []\<rparr>)
     = Wrapped ErrEventCreationFailed ''failed to create event: Internal error (code: 500)''
   \<and> wrapAPIError (Transport ''network error'')
     = Wrapped ErrEventCreationFailed ''failed to create event: network error''"
proof -
  note m400 = wrapAPIError_mapping [of "\<lparr>Code = 400, Message = ''Invalid request'', Errors = []\<rparr>" "''network error''"]
  note m401 = wrapAPIError_mapping [of "\<lparr>Code = 401, Message = ''Unauthorized'', Errors = []\<rparr>"]
  note m403q = wrapAPIError_mapping [of quota_error]
  note m403 = wrapAPIError_mapping [of "\<lparr>Code = 403, Message = ''Forbidden'', Errors = []\<rparr>"]
  note m404 = wrapAPIError_mapping [of "\<lparr>Code = 404, Message = ''Not found'', Errors = []\<rparr>"]
  note m429 = wrapAPIError_mapping [of "\<lparr>Code = 429, Message = ''Rate limited'', Errors = []\<rparr>"]
  note m500 = wrapAPIError_mapping [of "\<lparr>Code = 500, Message = ''Internal error'', Errors = []\<rparr>"]
  have d: "show_int 500 = ''500''"
    by (simp add: show_int_def show_nat.simps digit_char_def)
  show ?thesis
    using m400 m401 m403q m403 m404 m429 m500 d
    by (simp add: quota_error_def)
qed

end
